theory Spec2Isabelle
  imports Main
begin

section \<open>The notification dispatch core (notification.service.ts)\<close>

text \<open>
  A shallow embedding of \<^verbatim>\<open>NotificationService\<close>. Instants are milliseconds since the
  epoch (\<^verbatim>\<open>Date.now()\<close>, \<^verbatim>\<open>new Date()\<close>) and are integers; every operation reads the clock
  once and takes that instant as the argument \<open>now\<close>. The operations embedded are
  \<^verbatim>\<open>checkRateLimit\<close>, \<^verbatim>\<open>getPriorityValue\<close>, \<^verbatim>\<open>send\<close>, \<^verbatim>\<open>processScheduledNotifications\<close>,
  \<^verbatim>\<open>processNotification\<close> with its three senders and \<^verbatim>\<open>FirebaseProvider.sendToDevices\<close>,
  \<^verbatim>\<open>getUserNotifications\<close>, \<^verbatim>\<open>getUnreadCount\<close>, \<^verbatim>\<open>markAsRead\<close>, \<^verbatim>\<open>markAllAsRead\<close>,
  \<^verbatim>\<open>getFailedNotifications\<close> and \<^verbatim>\<open>retryNotification\<close>; logging is left out.
\<close>

subsection \<open>Rate limiter\<close>

text \<open>
  \<^verbatim>\<open>userRateLimits = new Map<string, { count: number; resetAt: number }>()\<close>,
  \<^verbatim>\<open>RATE_LIMIT_WINDOW = 60 * 1000\<close>, \<^verbatim>\<open>RATE_LIMIT_MAX = 100\<close>.
\<close>

record rate_entry =
  count :: nat
  resetAt :: int

type_synonym rate_limits = "string \<rightharpoonup> rate_entry"

definition RATE_LIMIT_WINDOW :: int where
  "RATE_LIMIT_WINDOW = 60 * 1000"

definition RATE_LIMIT_MAX :: nat where
  "RATE_LIMIT_MAX = 100"

text \<open>\<^verbatim>\<open>checkRateLimit(userId)\<close>: the verdict and the updated map.\<close>

definition checkRateLimit :: "int \<Rightarrow> string \<Rightarrow> rate_limits \<Rightarrow> bool \<times> rate_limits" where
  "checkRateLimit now userId m =
     (case m userId of
        None \<Rightarrow> (True, m(userId \<mapsto> \<lparr>count = 1, resetAt = now + RATE_LIMIT_WINDOW\<rparr>))
      | Some userLimit \<Rightarrow>
          if resetAt userLimit < now
          then (True, m(userId \<mapsto> \<lparr>count = 1, resetAt = now + RATE_LIMIT_WINDOW\<rparr>))
          else if count userLimit \<ge> RATE_LIMIT_MAX then (False, m)
          else (True, m(userId \<mapsto> userLimit\<lparr>count := count userLimit + 1\<rparr>)))"

text \<open>
  A run of calls \<open>(instant, user)\<close> by any users, in order: the verdicts that the calls of
  user \<open>u\<close> receive, and the final map.
\<close>

fun admit_calls :: "string \<Rightarrow> (int \<times> string) list \<Rightarrow> rate_limits \<Rightarrow> bool list \<times> rate_limits" where
  "admit_calls u [] m = ([], m)"
| "admit_calls u (c # cs) m =
     (let (ok, m') = checkRateLimit (fst c) (snd c) m;
          (oks, m'') = admit_calls u cs m'
      in (if snd c = u then ok # oks else oks, m''))"

text \<open>The number of calls of user \<open>u\<close> in a run.\<close>

abbreviation calls_of :: "string \<Rightarrow> (int \<times> string) list \<Rightarrow> nat" where
  "calls_of u cs \<equiv> length (filter (\<lambda>c. snd c = u) cs)"

subsection \<open>Entities\<close>

text \<open>
  Modelled from the spec: \<^verbatim>\<open>entities/notification.entity.ts\<close> and
  \<^verbatim>\<open>dto/notification.dto.ts\<close>, which the service imports, are not among the sources. The
  statuses and types are those of the spec's data model and the enum members the service
  names; the fields are the ones the service reads and writes (\<open>nid\<close> stands for
  \<^verbatim>\<open>id\<close> and \<open>ntype\<close> for \<^verbatim>\<open>type\<close>). An absent (\<^verbatim>\<open>undefined\<close>/\<^verbatim>\<open>null\<close>) field is
  \<open>None\<close>.
\<close>

datatype NotificationStatus = PENDING | QUEUED | SENT | DELIVERED | FAILED | READ

datatype NotificationType = PUSH | EMAIL | SMS | IN_APP

text \<open>
  A value of the free-form \<^verbatim>\<open>data\<close> payload. The service observes a value in three ways:
  whether it is a string, whether it is truthy, and its \<^verbatim>\<open>JSON.stringify\<close> text; a
  non-string value is represented by the latter two.
\<close>

datatype jvalue = JString string | JOther bool string

fun truthy_value :: "jvalue \<Rightarrow> bool" where
  "truthy_value (JString v) = (v \<noteq> [])"
| "truthy_value (JOther t _) = t"

text \<open>JavaScript truthiness of an optional string: \<^verbatim>\<open>undefined\<close> and \<^verbatim>\<open>''\<close> are falsy.\<close>

definition truthy :: "string option \<Rightarrow> bool" where
  "truthy v = (case v of None \<Rightarrow> False | Some x \<Rightarrow> x \<noteq> [])"

text \<open>The fields that the request, the entity and the response have in common.\<close>

record content =
  userId :: string
  workspaceId :: "string option"
  ntype :: NotificationType
  title :: string
  body :: string
  data :: "(string \<times> jvalue) list option"
  priority :: "string option"
  category :: "string option"
  actionUrl :: "string option"
  imageUrl :: "string option"

text \<open>\<^verbatim>\<open>SendNotificationDto\<close>: the two dates arrive as date strings.\<close>

record SendNotificationDto = content +
  dto_scheduledAt :: "string option"
  dto_expiresAt :: "string option"

text \<open>\<^verbatim>\<open>NotificationResponseDto\<close>, as \<^verbatim>\<open>toResponse\<close> fills it.\<close>

record NotificationResponseDto = content +
  nid :: string
  status :: NotificationStatus
  sentAt :: "int option"
  readAt :: "int option"
  createdAt :: int

text \<open>The \<^verbatim>\<open>Notification\<close> entity.\<close>

record Notification = NotificationResponseDto +
  scheduledAt :: "int option"
  expiresAt :: "int option"
  deliveredAt :: "int option"
  errorMessage :: "string option"
  retryCount :: nat

definition toResponse :: "Notification \<Rightarrow> NotificationResponseDto" where
  "toResponse notification =
     \<lparr>userId = userId notification,
      workspaceId = workspaceId notification,
      ntype = ntype notification,
      title = title notification,
      body = body notification,
      data = data notification,
      priority = priority notification,
      category = category notification,
      actionUrl = actionUrl notification,
      imageUrl = imageUrl notification,
      nid = nid notification,
      status = status notification,
      sentAt = sentAt notification,
      readAt = readAt notification,
      createdAt = createdAt notification\<rparr>"

subsection \<open>The notification store\<close>

text \<open>
  \<^verbatim>\<open>notificationRepo\<close> is a table of entities whose primary key is the id. \<^verbatim>\<open>findOne\<close> by id
  returns the row with that id; \<^verbatim>\<open>save\<close> writes an entity back under its id, or inserts
  it when the table has no row with that id.
\<close>

definition findOne :: "string \<Rightarrow> Notification list \<Rightarrow> Notification option" where
  "findOne i table = find (\<lambda>n. nid n = i) table"

definition save :: "Notification \<Rightarrow> Notification list \<Rightarrow> Notification list" where
  "save notification table =
     (if list_ex (\<lambda>n. nid n = nid notification) table
      then map (\<lambda>n. if nid n = nid notification then notification else n) table
      else table @ [notification])"

subsection \<open>The dispatch queue\<close>

text \<open>
  A job of the \<^verbatim>\<open>notifications\<close> queue as \<^verbatim>\<open>notificationQueue.add('send', {notificationId},
  {priority, attempts, backoff: {type, delay}})\<close> submits it.
\<close>

record job =
  jobName :: string
  notificationId :: string
  jobPriority :: nat
  attempts :: nat
  backoffType :: string
  backoffDelay :: nat

definition getPriorityValue :: "string option \<Rightarrow> nat" where
  "getPriorityValue p =
     (if p = Some ''urgent'' then 1
      else if p = Some ''high'' then 2
      else if p = Some ''normal'' then 3
      else if p = Some ''low'' then 4
      else 3)"

text \<open>The call \<^verbatim>\<open>notificationQueue.add('send', { notificationId: i }, { priority:
  getPriorityValue(p), attempts: 3, backoff: { type: 'exponential', delay: 1000 } })\<close>, which
  the service writes at three places.\<close>

definition queue_add_send :: "string \<Rightarrow> string option \<Rightarrow> job list \<Rightarrow> job list" where
  "queue_add_send i p q =
     q @ [\<lparr>jobName = ''send'', notificationId = i, jobPriority = getPriorityValue p,
           attempts = 3, backoffType = ''exponential'', backoffDelay = 1000\<rparr>]"

subsection \<open>Service state and collaborators\<close>

text \<open>The push payload handed to \<^verbatim>\<open>firebaseProvider.sendToDevices\<close>.\<close>

record PushPayload =
  push_title :: string
  push_body :: string
  push_data :: "(string \<times> string) list"
  push_imageUrl :: "string option"
  push_priority :: string

record EmailPayload =
  email_to :: jvalue
  email_subject :: string
  email_text :: string
  email_html :: jvalue

record SmsPayload =
  sms_to :: jvalue
  sms_body :: string

text \<open>\<^verbatim>\<open>EmailResult\<close> and \<^verbatim>\<open>SmsResult\<close>: the fields the service reads.\<close>

record SendResult =
  sent_ok :: bool
  sent_messageId :: "string option"
  sent_error :: "string option"

text \<open>The calls made to the three channel providers, in order.\<close>

datatype provider_call =
    PushCall "string list" PushPayload
  | EmailCall EmailPayload
  | SmsCall SmsPayload

record state =
  table :: "Notification list"
  queue :: "job list"
  userRateLimits :: rate_limits
  providerCalls :: "provider_call list"

text \<open>One response of the Firebase SDK's \<^verbatim>\<open>sendEachForMulticast\<close>: \<^verbatim>\<open>resp.success\<close> and
  \<^verbatim>\<open>resp.error?.message\<close>; and its batch response.\<close>

record SendResponse =
  resp_success :: bool
  resp_error :: "string option"

record BatchResponse =
  responses :: "SendResponse list"
  batch_successCount :: nat
  batch_failureCount :: nat

text \<open>
  The collaborators, taken at their interface: the preference gate, the device directory
  (the registered tokens of a user, or the message of the error it raises), the date
  constructor \<^verbatim>\<open>new Date(string)\<close>, the Firebase SDK (whether it was initialised, and what
  \<^verbatim>\<open>sendEachForMulticast\<close> answers or the message of the error it throws), and the email and
  SMS providers.
\<close>

record env =
  canSendNotification :: "string \<Rightarrow> string option \<Rightarrow> NotificationType \<Rightarrow> bool"
  getUserDevices :: "string \<Rightarrow> string + string list"
  toDate :: "string \<Rightarrow> int"
  initialized :: bool
  sendEachForMulticast :: "string list \<Rightarrow> PushPayload \<Rightarrow> string + BatchResponse"
  sendEmail :: "EmailPayload \<Rightarrow> SendResult"
  sendSms :: "SmsPayload \<Rightarrow> SendResult"

subsection \<open>Admission: send\<close>

text \<open>
  \<^verbatim>\<open>send(dto)\<close>. \<open>newId\<close> is the id the store generates for the inserted row. The result
  is \<open>None\<close> for \<^verbatim>\<open>null\<close>.
\<close>

definition send ::
  "env \<Rightarrow> int \<Rightarrow> string \<Rightarrow> SendNotificationDto \<Rightarrow> state \<Rightarrow> NotificationResponseDto option \<times> state"
where
  "send e now newId dto s =
     (let (admitted, limits) = checkRateLimit now (userId dto) (userRateLimits s);
          s1 = s\<lparr>userRateLimits := limits\<rparr>
      in if \<not> admitted then (None, s1)
         else if \<not> canSendNotification e (userId dto) (workspaceId dto) (ntype dto)
         then (None, s1)
         else
           let notification =
                 \<lparr>userId = userId dto,
                  workspaceId = workspaceId dto,
                  ntype = ntype dto,
                  title = title dto,
                  body = body dto,
                  data = data dto,
                  priority = priority dto,
                  category = category dto,
                  actionUrl = actionUrl dto,
                  imageUrl = imageUrl dto,
                  nid = newId,
                  status = (if truthy (dto_scheduledAt dto) then PENDING else QUEUED),
                  sentAt = None,
                  readAt = None,
                  createdAt = now,
                  scheduledAt =
                    (if truthy (dto_scheduledAt dto)
                     then map_option (toDate e) (dto_scheduledAt dto) else None),
                  expiresAt =
                    (if truthy (dto_expiresAt dto)
                     then map_option (toDate e) (dto_expiresAt dto) else None),
                  deliveredAt = None,
                  errorMessage = None,
                  retryCount = 0\<rparr>;
               s2 = s1\<lparr>table := save notification (table s1)\<rparr>;
               s3 = (if \<not> truthy (dto_scheduledAt dto)
                     then s2\<lparr>queue := queue_add_send (nid notification) (priority dto) (queue s2)\<rparr>
                     else s2)
           in (Some (toResponse notification), s3))"

subsection \<open>Scheduled sweep\<close>

text \<open>\<^verbatim>\<open>notification.expiresAt && notification.expiresAt < now\<close>.\<close>

definition expired :: "int \<Rightarrow> Notification \<Rightarrow> bool" where
  "expired now notification =
     (case expiresAt notification of None \<Rightarrow> False | Some t \<Rightarrow> t < now)"

text \<open>The query of the sweep: \<^verbatim>\<open>find({ where: { status: PENDING, scheduledAt:
  LessThanOrEqual(now) }, take: 100 })\<close>. A row without \<^verbatim>\<open>scheduledAt\<close> does not match.\<close>

definition due :: "int \<Rightarrow> Notification \<Rightarrow> bool" where
  "due now n =
     (status n = PENDING \<and> (case scheduledAt n of None \<Rightarrow> False | Some t \<Rightarrow> t \<le> now))"

definition pendingNotifications :: "int \<Rightarrow> Notification list \<Rightarrow> Notification list" where
  "pendingNotifications now rows = take 100 (filter (due now) rows)"

text \<open>The body of the \<^verbatim>\<open>for\<close> loop, and the loop over the fetched entities.\<close>

definition sweep_one :: "int \<Rightarrow> Notification \<Rightarrow> state \<Rightarrow> state" where
  "sweep_one now notification s =
     (if expired now notification
      then s\<lparr>table :=
               save (notification\<lparr>status := FAILED,
                       errorMessage := Some ''Notification expired before delivery''\<rparr>) (table s)\<rparr>
      else
        let queued = notification\<lparr>status := QUEUED\<rparr>;
            s1 = s\<lparr>table := save queued (table s)\<rparr>
        in s1\<lparr>queue := queue_add_send (nid queued) (priority queued) (queue s1)\<rparr>)"

fun sweep_loop :: "int \<Rightarrow> Notification list \<Rightarrow> state \<Rightarrow> state" where
  "sweep_loop now [] s = s"
| "sweep_loop now (notification # rest) s = sweep_loop now rest (sweep_one now notification s)"

definition processScheduledNotifications :: "int \<Rightarrow> state \<Rightarrow> state" where
  "processScheduledNotifications now s =
     (let pending = pendingNotifications now (table s)
      in if length pending = 0 then s else sweep_loop now pending s)"

subsection \<open>Push provider: sendToDevices\<close>

record PushResult =
  success :: bool
  successCount :: nat
  failureCount :: nat
  failedTokens :: "string option list"
  errors :: "(string option \<times> string) list"

text \<open>\<^verbatim>\<open>tokens[idx]\<close>, which is \<^verbatim>\<open>undefined\<close> past the end of the array.\<close>

definition token_at :: "string list \<Rightarrow> nat \<Rightarrow> string option" where
  "token_at tokens idx = (if idx < length tokens then Some (tokens ! idx) else None)"

text \<open>\<^verbatim>\<open>resp.error?.message || 'Unknown error'\<close>.\<close>

definition response_error :: "SendResponse \<Rightarrow> string" where
  "response_error resp =
     (if truthy (resp_error resp) then the (resp_error resp) else ''Unknown error'')"

text \<open>The \<^verbatim>\<open>forEach\<close> over \<^verbatim>\<open>response.responses\<close>, which collects the failed entries.\<close>

fun collect_errors :: "string list \<Rightarrow> nat \<Rightarrow> SendResponse list \<Rightarrow> (string option \<times> string) list" where
  "collect_errors tokens idx [] = []"
| "collect_errors tokens idx (resp # rest) =
     (if \<not> resp_success resp
      then (token_at tokens idx, response_error resp) # collect_errors tokens (Suc idx) rest
      else collect_errors tokens (Suc idx) rest)"

definition sendToDevices :: "env \<Rightarrow> string list \<Rightarrow> PushPayload \<Rightarrow> PushResult" where
  "sendToDevices e tokens payload =
     (if \<not> initialized e
      then \<lparr>success = False, successCount = 0, failureCount = length tokens,
            failedTokens = map Some tokens,
            errors = map (\<lambda>token. (Some token, ''Firebase not initialized'')) tokens\<rparr>
      else if length tokens = 0
      then \<lparr>success = True, successCount = 0, failureCount = 0, failedTokens = [], errors = []\<rparr>
      else
        case sendEachForMulticast e tokens payload of
          Inr response \<Rightarrow>
            let errs = collect_errors tokens 0 (responses response)
            in \<lparr>success = (batch_failureCount response = 0),
                successCount = batch_successCount response,
                failureCount = batch_failureCount response,
                failedTokens = map fst errs,
                errors = errs\<rparr>
        | Inl message \<Rightarrow>
            \<lparr>success = False, successCount = 0, failureCount = length tokens,
             failedTokens = map Some tokens,
             errors = map (\<lambda>token. (Some token, message)) tokens\<rparr>)"

subsection \<open>Processing\<close>

text \<open>Decimal text of a number, as a template literal renders it.\<close>

definition digit_char :: "nat \<Rightarrow> char" where
  "digit_char d = ''0123456789'' ! d"

fun string_of_nat :: "nat \<Rightarrow> string" where
  "string_of_nat n =
     (if n < 10 then [digit_char n]
      else string_of_nat (n div 10) @ [digit_char (n mod 10)])"

declare string_of_nat.simps [simp del]

text \<open>\<^verbatim>\<open>stringData[key] = value\<close> on the string-valued record.\<close>

fun set_key :: "string \<Rightarrow> string \<Rightarrow> (string \<times> string) list \<Rightarrow> (string \<times> string) list" where
  "set_key k v [] = [(k, v)]"
| "set_key k v ((k', v') # kvs) =
     (if k' = k then (k, v) # kvs else (k', v') # set_key k v kvs)"

text \<open>\<^verbatim>\<open>typeof value === 'string' ? value : JSON.stringify(value)\<close>.\<close>

fun string_value :: "jvalue \<Rightarrow> string" where
  "string_value (JString v) = v"
| "string_value (JOther _ text) = text"

definition stringData :: "Notification \<Rightarrow> (string \<times> string) list" where
  "stringData notification =
     (let d0 = (case data notification of
                  None \<Rightarrow> []
                | Some entries \<Rightarrow> fold (\<lambda>(key, v). set_key key (string_value v)) entries []);
          d1 = set_key ''notificationId'' (nid notification) d0
      in if truthy (actionUrl notification)
         then set_key ''actionUrl'' (the (actionUrl notification)) d1 else d1)"

text \<open>The payload that \<^verbatim>\<open>sendPushNotification\<close> hands to \<^verbatim>\<open>sendToDevices\<close>.\<close>

definition pushPayload :: "Notification \<Rightarrow> PushPayload" where
  "pushPayload notification =
     \<lparr>push_title = title notification,
      push_body = body notification,
      push_data = stringData notification,
      push_imageUrl = imageUrl notification,
      push_priority =
        (if priority notification = Some ''urgent'' \<or> priority notification = Some ''high''
         then ''high'' else ''normal'')\<rparr>"

text \<open>
  The three senders return the entity as they leave it and the provider calls they made;
  \<open>Inl message\<close> is an error raised on the way.
\<close>

definition sendPushNotification ::
  "env \<Rightarrow> Notification \<Rightarrow> (string + Notification) \<times> provider_call list" where
  "sendPushNotification e notification =
     (case getUserDevices e (userId notification) of
        Inl message \<Rightarrow> (Inl message, [])
      | Inr tokens \<Rightarrow>
          if length tokens = 0
          then (Inr (notification\<lparr>status := FAILED,
                       errorMessage := Some ''No registered devices''\<rparr>), [])
          else
            let result = sendToDevices e tokens (pushPayload notification);
                notification' =
                  (if success result then notification\<lparr>status := SENT\<rparr>
                   else if successCount result > 0
                   then notification\<lparr>status := SENT,
                          errorMessage := Some (''Partial delivery: '' @
                            string_of_nat (failureCount result) @ '' failed'')\<rparr>
                   else notification\<lparr>status := FAILED,
                          errorMessage := Some
                            (case errors result of
                               [] \<Rightarrow> ''All devices failed''
                             | err # _ \<Rightarrow>
                                 if snd err \<noteq> [] then snd err else ''All devices failed'')\<rparr>)
            in (Inr notification', [PushCall tokens (pushPayload notification)]))"

text \<open>\<^verbatim>\<open>notification.data?.key\<close>.\<close>

definition data_field :: "Notification \<Rightarrow> string \<Rightarrow> jvalue option" where
  "data_field notification key =
     (case data notification of None \<Rightarrow> None | Some entries \<Rightarrow> map_of (rev entries) key)"

definition truthy_field :: "jvalue option \<Rightarrow> bool" where
  "truthy_field v = (case v of None \<Rightarrow> False | Some x \<Rightarrow> truthy_value x)"

definition sendEmailNotification ::
  "env \<Rightarrow> Notification \<Rightarrow> (string + Notification) \<times> provider_call list" where
  "sendEmailNotification e notification =
     (let email = data_field notification ''email''
      in if \<not> truthy_field email
         then (Inr (notification\<lparr>status := FAILED,
                      errorMessage := Some ''No email address provided''\<rparr>), [])
         else
           let payload =
                 \<lparr>email_to = the email,
                  email_subject = title notification,
                  email_text = body notification,
                  email_html =
                    (if truthy_field (data_field notification ''htmlBody'')
                     then the (data_field notification ''htmlBody'')
                     else JString (''<p>'' @ body notification @ ''</p>''))\<rparr>;
               result = sendEmail e payload;
               notification' =
                 (if sent_ok result then notification\<lparr>status := SENT\<rparr>
                  else notification\<lparr>status := FAILED,
                         errorMessage := Some
                           (if truthy (sent_error result) then the (sent_error result)
                            else ''Email sending failed'')\<rparr>)
           in (Inr notification', [EmailCall payload]))"

definition sendSmsNotification ::
  "env \<Rightarrow> Notification \<Rightarrow> (string + Notification) \<times> provider_call list" where
  "sendSmsNotification e notification =
     (let phone = data_field notification ''phone''
      in if \<not> truthy_field phone
         then (Inr (notification\<lparr>status := FAILED,
                      errorMessage := Some ''No phone number provided''\<rparr>), [])
         else
           let payload =
                 \<lparr>sms_to = the phone,
                  sms_body = title notification @ [CHR 0x0A, CHR 0x0A] @ body notification\<rparr>;
               result = sendSms e payload;
               notification' =
                 (if sent_ok result then notification\<lparr>status := SENT\<rparr>
                  else notification\<lparr>status := FAILED,
                         errorMessage := Some
                           (if truthy (sent_error result) then the (sent_error result)
                            else ''SMS sending failed'')\<rparr>)
           in (Inr notification', [SmsCall payload]))"

text \<open>The \<^verbatim>\<open>switch\<close> on the notification type.\<close>

definition dispatch ::
  "env \<Rightarrow> int \<Rightarrow> Notification \<Rightarrow> (string + Notification) \<times> provider_call list" where
  "dispatch e now notification =
     (case ntype notification of
        PUSH \<Rightarrow> sendPushNotification e notification
      | EMAIL \<Rightarrow> sendEmailNotification e notification
      | SMS \<Rightarrow> sendSmsNotification e notification
      | IN_APP \<Rightarrow> (Inr (notification\<lparr>status := DELIVERED, deliveredAt := Some now\<rparr>), []))"

text \<open>
  \<^verbatim>\<open>processNotification(notificationId)\<close>: \<open>Inr ()\<close> when it returns, \<open>Inl message\<close> when it
  rethrows the error it caught.
\<close>

definition processNotification :: "env \<Rightarrow> int \<Rightarrow> string \<Rightarrow> state \<Rightarrow> (string + unit) \<times> state" where
  "processNotification e now i s =
     (case findOne i (table s) of
        None \<Rightarrow> (Inr (), s)
      | Some notification \<Rightarrow>
          if expired now notification
          then (Inr (), s\<lparr>table :=
                  save (notification\<lparr>status := FAILED,
                          errorMessage := Some ''Notification expired''\<rparr>) (table s)\<rparr>)
          else
            case dispatch e now notification of
              (Inr notification', calls) \<Rightarrow>
                (Inr (), s\<lparr>table := save (notification'\<lparr>sentAt := Some now\<rparr>) (table s),
                           providerCalls := providerCalls s @ calls\<rparr>)
            | (Inl message, calls) \<Rightarrow>
                (Inl message,
                 s\<lparr>table :=
                     save (notification\<lparr>status := FAILED,
                             errorMessage := Some message,
                             retryCount := retryCount notification + 1\<rparr>) (table s),
                   providerCalls := providerCalls s @ calls\<rparr>))"

subsection \<open>Queries and bulk updates\<close>

text \<open>\<^verbatim>\<open>orderBy('createdAt', 'DESC')\<close>.\<close>

definition newest_first :: "Notification list \<Rightarrow> Notification list" where
  "newest_first rows = rev (sort_key createdAt rows)"

text \<open>The optional workspace condition, added when \<^verbatim>\<open>workspaceId\<close> is truthy.\<close>

definition in_workspace :: "string option \<Rightarrow> Notification \<Rightarrow> bool" where
  "in_workspace ws n = (truthy ws \<longrightarrow> workspaceId n = ws)"

definition getUserNotifications ::
  "string \<Rightarrow> string option \<Rightarrow> nat \<Rightarrow> nat \<Rightarrow> Notification list \<Rightarrow> NotificationResponseDto list \<times> nat"
where
  "getUserNotifications u ws page limit rows =
     (let matching = filter (\<lambda>n. userId n = u \<and> ntype n = IN_APP \<and> in_workspace ws n) rows;
          notifications = take limit (drop (page * limit) (newest_first matching))
      in (map toResponse notifications, length matching))"

definition getUnreadCount :: "string \<Rightarrow> string option \<Rightarrow> Notification list \<Rightarrow> nat" where
  "getUnreadCount u ws rows =
     length (filter (\<lambda>n. userId n = u \<and> ntype n = IN_APP \<and> status n \<noteq> READ \<and>
                          in_workspace ws n) rows)"

definition markAsRead :: "int \<Rightarrow> string \<Rightarrow> string list \<Rightarrow> Notification list \<Rightarrow> Notification list" where
  "markAsRead now u notificationIds rows =
     map (\<lambda>n. if nid n \<in> set notificationIds \<and> userId n = u
               then n\<lparr>status := READ, readAt := Some now\<rparr> else n) rows"

definition markAllAsRead :: "int \<Rightarrow> string \<Rightarrow> string option \<Rightarrow> Notification list \<Rightarrow> Notification list" where
  "markAllAsRead now u ws rows =
     map (\<lambda>n. if userId n = u \<and> status n \<noteq> READ \<and> in_workspace ws n
               then n\<lparr>status := READ, readAt := Some now\<rparr> else n) rows"

definition getFailedNotifications :: "nat \<Rightarrow> Notification list \<Rightarrow> Notification list" where
  "getFailedNotifications limit rows =
     take limit (newest_first (filter (\<lambda>n. status n = FAILED) rows))"

definition retryNotification :: "string \<Rightarrow> state \<Rightarrow> bool \<times> state" where
  "retryNotification i s =
     (case findOne i (table s) of
        None \<Rightarrow> (False, s)
      | Some notification \<Rightarrow>
          if status notification \<noteq> FAILED then (False, s)
          else
            let queued = notification\<lparr>status := QUEUED, errorMessage := None\<rparr>;
                s1 = s\<lparr>table := save queued (table s)\<rparr>
            in (True, s1\<lparr>queue := queue_add_send i (priority queued) (queue s1)\<rparr>))"

subsection \<open>A concrete scenario\<close>

text \<open>
  A small table and a set of collaborators on which the operations are run: user
  \<open>alice\<close> has three registered tokens, of which the second fails at the provider; user
  \<open>bob\<close> has none; user \<open>muted\<close> is denied by the preference gate.
\<close>

definition sample :: "string \<Rightarrow> string \<Rightarrow> NotificationType \<Rightarrow> NotificationStatus \<Rightarrow> Notification" where
  "sample i u t st =
     \<lparr>userId = u, workspaceId = Some ''w1'', ntype = t, title = ''Build'', body = ''Done'',
      data = None, priority = None, category = None, actionUrl = None, imageUrl = None,
      nid = i, status = st, sentAt = None, readAt = None, createdAt = 10,
      scheduledAt = None, expiresAt = None, deliveredAt = None, errorMessage = None,
      retryCount = 0\<rparr>"

definition sample_table :: "Notification list" where
  "sample_table =
     [sample ''n1'' ''alice'' IN_APP SENT,
      (sample ''n2'' ''alice'' IN_APP SENT)\<lparr>workspaceId := Some ''w2''\<rparr>,
      sample ''p1'' ''alice'' PUSH QUEUED,
      sample ''p2'' ''bob'' PUSH QUEUED,
      (sample ''d1'' ''alice'' EMAIL PENDING)\<lparr>scheduledAt := Some 100, priority := Some ''urgent''\<rparr>,
      (sample ''d2'' ''alice'' EMAIL PENDING)\<lparr>scheduledAt := Some 100, expiresAt := Some 150\<rparr>,
      (sample ''f1'' ''bob'' SMS FAILED)\<lparr>errorMessage := Some ''No phone number provided''\<rparr>]"

definition sample_state :: state where
  "sample_state =
     \<lparr>table = sample_table, queue = [], userRateLimits = Map.empty, providerCalls = []\<rparr>"

definition sample_env :: env where
  "sample_env =
     \<lparr>canSendNotification = (\<lambda>u ws t. u \<noteq> ''muted''),
      getUserDevices = (\<lambda>u. if u = ''alice'' then Inr [''t1'', ''t2'', ''t3''] else Inr []),
      toDate = (\<lambda>d. 5000),
      initialized = True,
      sendEachForMulticast = (\<lambda>tokens payload.
        Inr \<lparr>responses =
               [\<lparr>resp_success = True, resp_error = None\<rparr>,
                \<lparr>resp_success = False, resp_error = Some ''Unregistered''\<rparr>,
                \<lparr>resp_success = True, resp_error = None\<rparr>],
             batch_successCount = 2, batch_failureCount = 1\<rparr>),
      sendEmail = (\<lambda>p. \<lparr>sent_ok = True, sent_messageId = Some ''m1'', sent_error = None\<rparr>),
      sendSms = (\<lambda>p. \<lparr>sent_ok = False, sent_messageId = None,
                        sent_error = Some ''No sender phone number configured''\<rparr>)\<rparr>"

text \<open>The same collaborators with a provider at which every destination fails.\<close>

definition failing_env :: env where
  "failing_env =
     sample_env\<lparr>sendEachForMulticast := (\<lambda>tokens payload.
        Inr \<lparr>responses =
               [\<lparr>resp_success = False, resp_error = Some ''Unregistered''\<rparr>,
                \<lparr>resp_success = False, resp_error = None\<rparr>,
                \<lparr>resp_success = False, resp_error = Some ''Quota''\<rparr>],
             batch_successCount = 0, batch_failureCount = 3\<rparr>)\<rparr>"

definition sample_dto :: SendNotificationDto where
  "sample_dto =
     \<lparr>userId = ''alice'', workspaceId = Some ''w1'', ntype = PUSH, title = ''Build'',
      body = ''Done'', data = None, priority = Some ''high'', category = None,
      actionUrl = None, imageUrl = None, dto_scheduledAt = None, dto_expiresAt = None\<rparr>"

section \<open>Properties\<close>

subsection \<open>Facts about the rate limiter\<close>

lemma admit_calls_Cons:
  "admit_calls u (c # cs) m =
     ((if snd c = u
       then fst (checkRateLimit (fst c) (snd c) m) #
            fst (admit_calls u cs (snd (checkRateLimit (fst c) (snd c) m)))
       else fst (admit_calls u cs (snd (checkRateLimit (fst c) (snd c) m)))),
      snd (admit_calls u cs (snd (checkRateLimit (fst c) (snd c) m))))"
  by (simp add: case_prod_beta)

lemma checkRateLimit_other_user:
  "v \<noteq> u \<Longrightarrow> snd (checkRateLimit now v m) u = m u"
  by (simp add: checkRateLimit_def split: option.splits)

lemma checkRateLimit_full:
  "m u = Some \<lparr>count = c, resetAt = r\<rparr> \<Longrightarrow> t \<le> r \<Longrightarrow> RATE_LIMIT_MAX \<le> c \<Longrightarrow>
   checkRateLimit t u m = (False, m)"
  by (simp add: checkRateLimit_def)

lemma checkRateLimit_room:
  "m u = Some \<lparr>count = c, resetAt = r\<rparr> \<Longrightarrow> t \<le> r \<Longrightarrow> c < RATE_LIMIT_MAX \<Longrightarrow>
   checkRateLimit t u m = (True, m(u \<mapsto> \<lparr>count = Suc c, resetAt = r\<rparr>))"
  by (simp add: checkRateLimit_def)

lemma checkRateLimit_fresh:
  "m u = None \<or> (\<exists>l. m u = Some l \<and> resetAt l < t) \<Longrightarrow>
   checkRateLimit t u m = (True, m(u \<mapsto> \<lparr>count = 1, resetAt = t + RATE_LIMIT_WINDOW\<rparr>))"
  by (auto simp: checkRateLimit_def)

text \<open>Inside a window that holds \<open>c\<close> admitted calls, the \<open>k\<close>-th further call of the user
  is admitted exactly when \<open>c + k\<close> is below the maximum, whatever the other users do.\<close>

lemma admit_calls_in_window:
  "m u = Some \<lparr>count = c, resetAt = r\<rparr> \<Longrightarrow> \<forall>x\<in>set cs. snd x = u \<longrightarrow> fst x \<le> r \<Longrightarrow>
   fst (admit_calls u cs m) = map (\<lambda>k. c + k < RATE_LIMIT_MAX) [0..<calls_of u cs] \<and>
   snd (admit_calls u cs m) u =
     Some \<lparr>count = (if RATE_LIMIT_MAX \<le> c then c else min (c + calls_of u cs) RATE_LIMIT_MAX),
           resetAt = r\<rparr>"
proof (induction cs arbitrary: m c)
  case Nil
  then show ?case by simp
next
  case (Cons x cs)
  have rest: "\<forall>x\<in>set cs. snd x = u \<longrightarrow> fst x \<le> r" using Cons.prems(2) by simp
  show ?case
  proof (cases "snd x = u")
    case other: False
    define m' where "m' = snd (checkRateLimit (fst x) (snd x) m)"
    have m': "m' u = Some \<lparr>count = c, resetAt = r\<rparr>"
      using other Cons.prems(1) by (simp add: m'_def checkRateLimit_other_user)
    show ?thesis
      using Cons.IH[of m' c] m' rest other
      unfolding admit_calls_Cons m'_def[symmetric] by simp
  next
    case mine: True
    then have t: "fst x \<le> r" using Cons.prems(2) by simp
    have shift: "map (\<lambda>k. c + k < RATE_LIMIT_MAX) [0..<calls_of u (x # cs)] =
        (c < RATE_LIMIT_MAX) # map (\<lambda>k. Suc c + k < RATE_LIMIT_MAX) [0..<calls_of u cs]"
      using mine by (simp add: upt_conv_Cons map_Suc_upt[symmetric] del: upt_Suc)
    show ?thesis
    proof (cases "RATE_LIMIT_MAX \<le> c")
      case True
      then have step: "checkRateLimit (fst x) (snd x) m = (False, m)"
        using Cons.prems(1) t mine by (simp add: checkRateLimit_full)
      have all_no: "map (\<lambda>k. Suc c + k < RATE_LIMIT_MAX) [0..<calls_of u cs] =
          map (\<lambda>k. c + k < RATE_LIMIT_MAX) [0..<calls_of u cs]"
        using True by simp
      show ?thesis
        using Cons.IH[of m c] Cons.prems(1) rest True mine
        unfolding admit_calls_Cons step shift all_no by simp
    next
      case False
      define m' where "m' = m(u \<mapsto> \<lparr>count = Suc c, resetAt = r\<rparr>)"
      have step: "checkRateLimit (fst x) (snd x) m = (True, m')"
        using False Cons.prems(1) t mine by (simp add: checkRateLimit_room m'_def)
      have m': "m' u = Some \<lparr>count = Suc c, resetAt = r\<rparr>"
        by (simp add: m'_def)
      have ih: "fst (admit_calls u cs m') =
          map (\<lambda>k. Suc c + k < RATE_LIMIT_MAX) [0..<calls_of u cs]"
        "snd (admit_calls u cs m') u =
           Some \<lparr>count = (if RATE_LIMIT_MAX \<le> Suc c then Suc c
                            else min (Suc c + calls_of u cs) RATE_LIMIT_MAX), resetAt = r\<rparr>"
        using Cons.IH[of m' "Suc c"] m' rest by simp_all
      have "\<And>n. (if RATE_LIMIT_MAX \<le> Suc c then Suc c else min (Suc c + n) RATE_LIMIT_MAX) =
          min (c + Suc n) RATE_LIMIT_MAX"
        using False by (simp add: min_def)
      then have cnt: "(if RATE_LIMIT_MAX \<le> Suc c then Suc c
           else min (Suc c + calls_of u cs) RATE_LIMIT_MAX) =
           min (c + calls_of u (x # cs)) RATE_LIMIT_MAX"
        using mine by simp
      show ?thesis
        using False ih mine unfolding admit_calls_Cons step shift cnt by simp
    qed
  qed
qed

text \<open>
  C2. Each call is admitted with a fresh window (count 1, reset 60 seconds later) when
  the user has no entry or the entry's reset instant has passed, rejected when the window
  already counts 100, and admitted with the count incremented otherwise; a call by another
  user leaves the user's entry alone. Hence, in any run of calls that starts with a call of
  user \<open>u\<close> at \<open>t0\<close> opening a window, of the calls that \<open>u\<close> makes up to \<open>t0 + 60000\<close>
  the first 100 are admitted and every later one is rejected; a call of \<open>u\<close> after
  \<open>t0 + 60000\<close> is admitted again, with a fresh window.
\<close>

theorem checkRateLimit_window:
  "checkRateLimit now u m =
     (if m u = None \<or> (\<exists>l. m u = Some l \<and> resetAt l < now)
      then (True, m(u \<mapsto> \<lparr>count = 1, resetAt = now + 60000\<rparr>))
      else if 100 \<le> count (the (m u)) then (False, m)
      else (True, m(u \<mapsto> (the (m u))\<lparr>count := count (the (m u)) + 1\<rparr>)))
   \<and> (v \<noteq> u \<longrightarrow> snd (checkRateLimit now v m) u = m u)
   \<and> ((m u = None \<or> (\<exists>l. m u = Some l \<and> resetAt l < t0)) \<and>
        (\<forall>x\<in>set cs. snd x = u \<longrightarrow> fst x \<le> t0 + 60000) \<longrightarrow>
        fst (admit_calls u ((t0, u) # cs) m) =
          map (\<lambda>k. k < 100) [0..<Suc (length (filter (\<lambda>c. snd c = u) cs))] \<and>
        (\<forall>t'. t0 + 60000 < t' \<longrightarrow>
           checkRateLimit t' u (snd (admit_calls u ((t0, u) # cs) m)) =
             (True, (snd (admit_calls u ((t0, u) # cs) m))
                      (u \<mapsto> \<lparr>count = 1, resetAt = t' + 60000\<rparr>))))"
proof (intro conjI impI)
  show "checkRateLimit now u m =
     (if m u = None \<or> (\<exists>l. m u = Some l \<and> resetAt l < now)
      then (True, m(u \<mapsto> \<lparr>count = 1, resetAt = now + 60000\<rparr>))
      else if 100 \<le> count (the (m u)) then (False, m)
      else (True, m(u \<mapsto> (the (m u))\<lparr>count := count (the (m u)) + 1\<rparr>)))"
    by (auto simp: checkRateLimit_def RATE_LIMIT_WINDOW_def RATE_LIMIT_MAX_def
             split: option.splits)
next
  assume "v \<noteq> u"
  then show "snd (checkRateLimit now v m) u = m u" by (rule checkRateLimit_other_user)
next
  assume h: "(m u = None \<or> (\<exists>l. m u = Some l \<and> resetAt l < t0)) \<and>
             (\<forall>x\<in>set cs. snd x = u \<longrightarrow> fst x \<le> t0 + 60000)"
  define r where "r = t0 + RATE_LIMIT_WINDOW"
  define m1 where "m1 = m(u \<mapsto> \<lparr>count = 1, resetAt = r\<rparr>)"
  have first: "checkRateLimit (fst (t0, u)) (snd (t0, u)) m = (True, m1)"
    using h checkRateLimit_fresh[of m u t0] by (simp add: m1_def r_def)
  have m1: "m1 u = Some \<lparr>count = 1, resetAt = r\<rparr>" by (simp add: m1_def)
  have cs: "\<forall>x\<in>set cs. snd x = u \<longrightarrow> fst x \<le> r" using h by (simp add: r_def RATE_LIMIT_WINDOW_def)
  have win: "fst (admit_calls u cs m1) = map (\<lambda>k. 1 + k < RATE_LIMIT_MAX) [0..<calls_of u cs]"
    "snd (admit_calls u cs m1) u =
       Some \<lparr>count = (if RATE_LIMIT_MAX \<le> 1 then 1 else min (1 + calls_of u cs) RATE_LIMIT_MAX),
             resetAt = r\<rparr>"
    using admit_calls_in_window[of m1 u 1 r cs] m1 cs by simp_all
  have verdicts: "fst (admit_calls u ((t0, u) # cs) m) =
      True # map (\<lambda>k. Suc k < 100) [0..<calls_of u cs]"
    unfolding admit_calls_Cons first using win(1) by (simp add: RATE_LIMIT_MAX_def)
  have "map (\<lambda>k. k < (100::nat)) [0..<Suc (calls_of u cs)] =
      True # map (\<lambda>k. Suc k < 100) [0..<calls_of u cs]"
    by (simp add: upt_conv_Cons map_Suc_upt[symmetric] del: upt_Suc)
  with verdicts show "fst (admit_calls u ((t0, u) # cs) m) =
      map (\<lambda>k. k < 100) [0..<Suc (length (filter (\<lambda>c. snd c = u) cs))]"
    by simp
  have final: "snd (admit_calls u ((t0, u) # cs) m) u =
      Some \<lparr>count = min (1 + calls_of u cs) RATE_LIMIT_MAX, resetAt = r\<rparr>"
    unfolding admit_calls_Cons first using win(2) by (simp add: RATE_LIMIT_MAX_def)
  show "\<forall>t'. t0 + 60000 < t' \<longrightarrow>
           checkRateLimit t' u (snd (admit_calls u ((t0, u) # cs) m)) =
             (True, (snd (admit_calls u ((t0, u) # cs) m))
                      (u \<mapsto> \<lparr>count = 1, resetAt = t' + 60000\<rparr>))"
  proof (intro allI impI)
    fix t' :: int
    assume "t0 + 60000 < t'"
    then have "\<exists>l. snd (admit_calls u ((t0, u) # cs) m) u = Some l \<and> resetAt l < t'"
      using final by (simp add: r_def RATE_LIMIT_WINDOW_def)
    then show "checkRateLimit t' u (snd (admit_calls u ((t0, u) # cs) m)) =
             (True, (snd (admit_calls u ((t0, u) # cs) m))
                      (u \<mapsto> \<lparr>count = 1, resetAt = t' + 60000\<rparr>))"
      using checkRateLimit_fresh[of "snd (admit_calls u ((t0, u) # cs) m)" u t']
      by (simp add: RATE_LIMIT_WINDOW_def)
  qed
qed

theorem checkRateLimit_window_witness:
  "(Map.empty :: rate_limits) ''u1'' = None \<and>
   fst (admit_calls ''u1'' ((0, ''u1'') # (3, ''u2'') # replicate 100 (5, ''u1'')) Map.empty) ! 99 = True \<and>
   fst (admit_calls ''u1'' ((0, ''u1'') # (3, ''u2'') # replicate 100 (5, ''u1'')) Map.empty) ! 100 = False \<and>
   fst (checkRateLimit 60001 ''u1''
         (snd (admit_calls ''u1'' ((0, ''u1'') # (3, ''u2'') # replicate 100 (5, ''u1'')) Map.empty))) = True"
proof -
  let ?cs = "(3, ''u2'') # replicate 100 (5::int, ''u1'')"
  have h: "((Map.empty :: rate_limits) ''u1'' = None \<or>
      (\<exists>l. (Map.empty :: rate_limits) ''u1'' = Some l \<and> resetAt l < 0)) \<and>
      (\<forall>x\<in>set ?cs. snd x = ''u1'' \<longrightarrow> fst x \<le> (0::int) + 60000)"
    by simp
  have len: "Suc (length (filter (\<lambda>c. snd c = ''u1'') ?cs)) = 101" by simp
  note w = checkRateLimit_window[of 0 "''u1''" Map.empty "''u2''" 0 ?cs,
      THEN conjunct2, THEN conjunct2, rule_format, OF h]
  have a: "fst (admit_calls ''u1'' ((0, ''u1'') # ?cs) Map.empty) = map (\<lambda>k. k < 100) [0..<101]"
    using w[THEN conjunct1] unfolding len .
  have b: "fst (checkRateLimit 60001 ''u1'' (snd (admit_calls ''u1'' ((0, ''u1'') # ?cs) Map.empty))) = True"
    using w[THEN conjunct2, rule_format, of 60001] by simp
  have c: "map (\<lambda>k. k < (100::nat)) [0..<101] ! 99 = True"
    "map (\<lambda>k. k < (100::nat)) [0..<101] ! 100 = False"
    by (simp_all add: nth_map nth_upt del: upt_Suc)
  show ?thesis unfolding a using b c by simp
qed

subsection \<open>Facts about the store\<close>

lemma find_snoc:
  "find P (xs @ [x]) =
     (case find P xs of Some y \<Rightarrow> Some y | None \<Rightarrow> if P x then Some x else None)"
  by (induction xs) auto

lemma findOne_save_same: "findOne (nid n) (save n rows) = Some n"
proof (cases "list_ex (\<lambda>r. nid r = nid n) rows")
  case True
  have "find (\<lambda>r. nid r = nid n) (map (\<lambda>r. if nid r = nid n then n else r) rows) = Some n"
    using True by (induction rows) auto
  with True show ?thesis by (simp add: findOne_def save_def)
next
  case False
  then have "find (\<lambda>r. nid r = nid n) rows = None"
    by (simp add: find_None_iff list_ex_iff)
  with False show ?thesis by (simp add: findOne_def save_def find_snoc)
qed

lemma findOne_save_other: "nid n \<noteq> i \<Longrightarrow> findOne i (save n rows) = findOne i rows"
proof -
  assume ne: "nid n \<noteq> i"
  have a: "find (\<lambda>r. nid r = i) (map (\<lambda>r. if nid r = nid n then n else r) rows) =
           find (\<lambda>r. nid r = i) rows"
    using ne by (induction rows) auto
  have b: "find (\<lambda>r. nid r = i) (rows @ [n]) = find (\<lambda>r. nid r = i) rows"
    using ne by (simp add: find_snoc split: option.splits)
  show ?thesis using a b by (simp add: findOne_def save_def)
qed

lemma findOne_nid: "findOne i rows = Some n \<Longrightarrow> nid n = i"
  by (auto simp: findOne_def find_Some_iff)

lemma findOne_in_set: "findOne i rows = Some n \<Longrightarrow> n \<in> set rows"
  by (auto simp: findOne_def find_Some_iff)

lemma save_rows_with_id: "r \<in> set (save n rows) \<Longrightarrow> nid r = nid n \<Longrightarrow> r = n"
  by (auto simp: save_def list_ex_iff split: if_splits)

subsection \<open>Admission\<close>

text \<open>
  C1. When \<^verbatim>\<open>send\<close> creates a notification, its status is PENDING if \<^verbatim>\<open>scheduledAt\<close> is
  present (the source's test \<^verbatim>\<open>dto.scheduledAt ? ... : ...\<close>) and QUEUED otherwise; the row is
  persisted under the new id; and a job is appended to the queue exactly when \<^verbatim>\<open>scheduledAt\<close>
  is absent, with priority 1 for urgent, 2 for high, 3 for normal, 4 for low and 3 for
  anything else, 3 attempts and exponential backoff starting at 1000 ms.
\<close>

theorem send_status_and_job:
  assumes "send e now newId dto s = (Some r, s')"
  shows "\<exists>n. r = toResponse n \<and> nid n = newId \<and>
           table s' = save n (table s) \<and> findOne newId (table s') = Some n \<and>
           status n = (if truthy (dto_scheduledAt dto) then PENDING else QUEUED) \<and>
           queue s' =
             (if truthy (dto_scheduledAt dto) then queue s
              else queue s @
                [\<lparr>jobName = ''send'', notificationId = newId,
                  jobPriority =
                    (if priority dto = Some ''urgent'' then 1
                     else if priority dto = Some ''high'' then 2
                     else if priority dto = Some ''normal'' then 3
                     else if priority dto = Some ''low'' then 4
                     else 3),
                  attempts = 3, backoffType = ''exponential'', backoffDelay = 1000\<rparr>])"
proof -
  define n :: Notification where "n =
     \<lparr>userId = userId dto, workspaceId = workspaceId dto, ntype = ntype dto,
      title = title dto, body = body dto, data = data dto, priority = priority dto,
      category = category dto, actionUrl = actionUrl dto, imageUrl = imageUrl dto,
      nid = newId,
      status = (if truthy (dto_scheduledAt dto) then PENDING else QUEUED),
      sentAt = None, readAt = None, createdAt = now,
      scheduledAt = (if truthy (dto_scheduledAt dto)
                     then map_option (toDate e) (dto_scheduledAt dto) else None),
      expiresAt = (if truthy (dto_expiresAt dto)
                   then map_option (toDate e) (dto_expiresAt dto) else None),
      deliveredAt = None, errorMessage = None, retryCount = 0\<rparr>"
  have nid: "nid n = newId"
    and st: "status n = (if truthy (dto_scheduledAt dto) then PENDING else QUEUED)"
    by (simp_all add: n_def)
  from assms have r: "r = toResponse n"
    and s': "s' = (if \<not> truthy (dto_scheduledAt dto)
         then s\<lparr>userRateLimits := snd (checkRateLimit now (userId dto) (userRateLimits s)),
                table := save n (table s),
                queue := queue_add_send newId (priority dto) (queue s)\<rparr>
         else s\<lparr>userRateLimits := snd (checkRateLimit now (userId dto) (userRateLimits s)),
                table := save n (table s)\<rparr>)"
    by (auto simp: send_def Let_def n_def split: prod.splits if_splits)
  have tab: "table s' = save n (table s)" by (simp add: s')
  have f: "findOne newId (table s') = Some n"
    using findOne_save_same[of n "table s"] by (simp add: tab nid)
  have q: "queue s' = (if truthy (dto_scheduledAt dto) then queue s
              else queue s @
                [\<lparr>jobName = ''send'', notificationId = newId,
                  jobPriority =
                    (if priority dto = Some ''urgent'' then 1
                     else if priority dto = Some ''high'' then 2
                     else if priority dto = Some ''normal'' then 3
                     else if priority dto = Some ''low'' then 4
                     else 3),
                  attempts = 3, backoffType = ''exponential'', backoffDelay = 1000\<rparr>])"
    by (simp add: s' queue_add_send_def getPriorityValue_def)
  show ?thesis
    using r nid tab f st q by blast
qed

theorem send_status_and_job_witness:
  "(\<exists>n. fst (send sample_env 1000 ''new'' sample_dto sample_state) = Some (toResponse n) \<and>
        status n = QUEUED \<and>
        queue (snd (send sample_env 1000 ''new'' sample_dto sample_state)) =
          [\<lparr>jobName = ''send'', notificationId = ''new'', jobPriority = 2, attempts = 3,
            backoffType = ''exponential'', backoffDelay = 1000\<rparr>]) \<and>
   (\<exists>n. fst (send sample_env 1000 ''new''
               (sample_dto\<lparr>dto_scheduledAt := Some ''2030-01-01T00:00:00Z''\<rparr>) sample_state) =
           Some (toResponse n) \<and>
        status n = PENDING \<and>
        queue (snd (send sample_env 1000 ''new''
               (sample_dto\<lparr>dto_scheduledAt := Some ''2030-01-01T00:00:00Z''\<rparr>) sample_state)) = [])"
proof -
  let ?now = "send sample_env 1000 ''new'' sample_dto sample_state"
  let ?dto = "sample_dto\<lparr>dto_scheduledAt := Some ''2030-01-01T00:00:00Z''\<rparr>"
  let ?later = "send sample_env 1000 ''new'' ?dto sample_state"
  have adm: "fst (checkRateLimit 1000 ''alice'' Map.empty) = True"
    by (simp add: checkRateLimit_def)
  have h1: "?now = (Some (the (fst ?now)), snd ?now)"
    by (simp add: send_def Let_def case_prod_beta sample_env_def sample_dto_def
        sample_state_def adm)
  have h2: "?later = (Some (the (fst ?later)), snd ?later)"
    by (simp add: send_def Let_def case_prod_beta sample_env_def sample_dto_def
        sample_state_def adm)
  have t1: "\<not> truthy (dto_scheduledAt sample_dto)" "priority sample_dto = Some ''high''"
    by (simp_all add: truthy_def sample_dto_def)
  have t2: "truthy (dto_scheduledAt ?dto)" by (simp add: truthy_def)
  have q: "queue sample_state = []" by (simp add: sample_state_def)
  have f1: "fst ?now = Some (the (fst ?now))" using arg_cong[OF h1, of fst] by simp
  have f2: "fst ?later = Some (the (fst ?later))" using arg_cong[OF h2, of fst] by simp
  from send_status_and_job[OF h1] obtain n where n: "the (fst ?now) = toResponse n"
    "status n = (if truthy (dto_scheduledAt sample_dto) then PENDING else QUEUED)"
    "queue (snd ?now) =
       (if truthy (dto_scheduledAt sample_dto) then queue sample_state
        else queue sample_state @
          [\<lparr>jobName = ''send'', notificationId = ''new'',
            jobPriority =
              (if priority sample_dto = Some ''urgent'' then 1
               else if priority sample_dto = Some ''high'' then 2
               else if priority sample_dto = Some ''normal'' then 3
               else if priority sample_dto = Some ''low'' then 4
               else 3),
            attempts = 3, backoffType = ''exponential'', backoffDelay = 1000\<rparr>])"
    by blast
  have "fst ?now = Some (toResponse n)" using f1 n(1) by simp
  moreover have "status n = QUEUED" using n(2) t1 by simp
  moreover have "queue (snd ?now) =
          [\<lparr>jobName = ''send'', notificationId = ''new'', jobPriority = 2, attempts = 3,
            backoffType = ''exponential'', backoffDelay = 1000\<rparr>]"
    using n(3) t1 q by simp
  ultimately have a: "\<exists>n. fst ?now = Some (toResponse n) \<and> status n = QUEUED \<and>
        queue (snd ?now) =
          [\<lparr>jobName = ''send'', notificationId = ''new'', jobPriority = 2, attempts = 3,
            backoffType = ''exponential'', backoffDelay = 1000\<rparr>]"
    by blast
  from send_status_and_job[OF h2] obtain k where k: "the (fst ?later) = toResponse k"
    "status k = (if truthy (dto_scheduledAt ?dto) then PENDING else QUEUED)"
    "queue (snd ?later) =
       (if truthy (dto_scheduledAt ?dto) then queue sample_state
        else queue sample_state @
          [\<lparr>jobName = ''send'', notificationId = ''new'',
            jobPriority =
              (if priority ?dto = Some ''urgent'' then 1
               else if priority ?dto = Some ''high'' then 2
               else if priority ?dto = Some ''normal'' then 3
               else if priority ?dto = Some ''low'' then 4
               else 3),
            attempts = 3, backoffType = ''exponential'', backoffDelay = 1000\<rparr>])"
    by blast
  have "fst ?later = Some (toResponse k)" using f2 k(1) by simp
  moreover have "status k = PENDING" using k(2) t2 by simp
  moreover have "queue (snd ?later) = []" using k(3) t2 q by simp
  ultimately have b: "\<exists>n. fst ?later = Some (toResponse n) \<and> status n = PENDING \<and>
        queue (snd ?later) = []"
    by blast
  show ?thesis using a b by blast
qed

text \<open>
  C7. A request that the rate limiter rejects or the preference gate denies returns
  \<^verbatim>\<open>null\<close>; the table, the queue and the provider calls are as before. The result type of
  \<open>send\<close> has no error value: nothing is raised.
\<close>

theorem send_silent_drop:
  assumes "\<not> fst (checkRateLimit now (userId dto) (userRateLimits s)) \<or>
           \<not> canSendNotification e (userId dto) (workspaceId dto) (ntype dto)"
  shows "fst (send e now newId dto s) = None \<and>
         table (snd (send e now newId dto s)) = table s \<and>
         queue (snd (send e now newId dto s)) = queue s \<and>
         providerCalls (snd (send e now newId dto s)) = providerCalls s"
  using assms by (auto simp: send_def Let_def split: prod.splits)

theorem send_silent_drop_witness:
  "fst (send sample_env 1000 ''new'' (sample_dto\<lparr>userId := ''muted''\<rparr>) sample_state) = None \<and>
   table (snd (send sample_env 1000 ''new'' (sample_dto\<lparr>userId := ''muted''\<rparr>) sample_state)) =
     sample_table \<and>
   queue (snd (send sample_env 1000 ''new'' (sample_dto\<lparr>userId := ''muted''\<rparr>) sample_state)) = [] \<and>
   fst (send sample_env 1000 ''new'' sample_dto
         (sample_state\<lparr>userRateLimits := [''alice'' \<mapsto> \<lparr>count = 100, resetAt = 5000\<rparr>]\<rparr>)) = None \<and>
   table (snd (send sample_env 1000 ''new'' sample_dto
         (sample_state\<lparr>userRateLimits := [''alice'' \<mapsto> \<lparr>count = 100, resetAt = 5000\<rparr>]\<rparr>))) =
     sample_table"
proof -
  have h1: "\<not> fst (checkRateLimit 1000 (userId (sample_dto\<lparr>userId := ''muted''\<rparr>))
                (userRateLimits sample_state)) \<or>
        \<not> canSendNotification sample_env (userId (sample_dto\<lparr>userId := ''muted''\<rparr>))
            (workspaceId (sample_dto\<lparr>userId := ''muted''\<rparr>))
            (ntype (sample_dto\<lparr>userId := ''muted''\<rparr>))"
    by (simp add: sample_env_def)
  have h2: "\<not> fst (checkRateLimit 1000 (userId sample_dto)
                (userRateLimits (sample_state\<lparr>userRateLimits :=
                   [''alice'' \<mapsto> \<lparr>count = 100, resetAt = 5000\<rparr>]\<rparr>))) \<or>
        \<not> canSendNotification sample_env (userId sample_dto) (workspaceId sample_dto)
            (ntype sample_dto)"
    by (simp add: checkRateLimit_def RATE_LIMIT_MAX_def sample_dto_def)
  show ?thesis
    using send_silent_drop[OF h1, of "''new''"] send_silent_drop[OF h2, of "''new''"]
    by (simp add: sample_state_def)
qed

subsection \<open>Scheduled sweep\<close>

lemma sweep_one_other:
  "nid p \<noteq> i \<Longrightarrow>
   findOne i (table (sweep_one now p s)) = findOne i (table s) \<and>
   filter (\<lambda>j. notificationId j = i) (queue (sweep_one now p s)) =
     filter (\<lambda>j. notificationId j = i) (queue s)"
  by (simp add: sweep_one_def Let_def findOne_save_other queue_add_send_def)

lemma sweep_loop_other:
  "i \<notin> nid ` set ps \<Longrightarrow>
   findOne i (table (sweep_loop now ps s)) = findOne i (table s) \<and>
   filter (\<lambda>j. notificationId j = i) (queue (sweep_loop now ps s)) =
     filter (\<lambda>j. notificationId j = i) (queue s)"
proof (induction ps arbitrary: s)
  case Nil
  then show ?case by simp
next
  case (Cons p ps)
  then have "nid p \<noteq> i" and "i \<notin> nid ` set ps" by auto
  then show ?case
    using Cons.IH[of "sweep_one now p s"] sweep_one_other[of p i now s] by simp
qed

lemma sweep_one_same:
  "findOne (nid p) (table (sweep_one now p s)) =
     Some (if expired now p
           then p\<lparr>status := FAILED, errorMessage := Some ''Notification expired before delivery''\<rparr>
           else p\<lparr>status := QUEUED\<rparr>) \<and>
   filter (\<lambda>j. notificationId j = nid p) (queue (sweep_one now p s)) =
     filter (\<lambda>j. notificationId j = nid p) (queue s) @
     (if expired now p then []
      else [\<lparr>jobName = ''send'', notificationId = nid p,
             jobPriority = getPriorityValue (priority p),
             attempts = 3, backoffType = ''exponential'', backoffDelay = 1000\<rparr>])"
proof (cases "expired now p")
  case True
  have "findOne (nid (p\<lparr>status := FAILED, errorMessage := Some ''Notification expired before delivery''\<rparr>))
          (save (p\<lparr>status := FAILED, errorMessage := Some ''Notification expired before delivery''\<rparr>) (table s)) =
        Some (p\<lparr>status := FAILED, errorMessage := Some ''Notification expired before delivery''\<rparr>)"
    by (rule findOne_save_same)
  with True show ?thesis by (simp add: sweep_one_def)
next
  case False
  have "findOne (nid (p\<lparr>status := QUEUED\<rparr>)) (save (p\<lparr>status := QUEUED\<rparr>) (table s)) =
        Some (p\<lparr>status := QUEUED\<rparr>)"
    by (rule findOne_save_same)
  with False show ?thesis by (simp add: sweep_one_def Let_def queue_add_send_def)
qed

lemma sweep_loop_member:
  "distinct (map nid ps) \<Longrightarrow> n \<in> set ps \<Longrightarrow>
   findOne (nid n) (table (sweep_loop now ps s)) =
     Some (if expired now n
           then n\<lparr>status := FAILED, errorMessage := Some ''Notification expired before delivery''\<rparr>
           else n\<lparr>status := QUEUED\<rparr>) \<and>
   filter (\<lambda>j. notificationId j = nid n) (queue (sweep_loop now ps s)) =
     filter (\<lambda>j. notificationId j = nid n) (queue s) @
     (if expired now n then []
      else [\<lparr>jobName = ''send'', notificationId = nid n,
             jobPriority = getPriorityValue (priority n),
             attempts = 3, backoffType = ''exponential'', backoffDelay = 1000\<rparr>])"
proof (induction ps arbitrary: s)
  case Nil
  then show ?case by simp
next
  case (Cons p ps)
  show ?case
  proof (cases "n = p")
    case True
    from Cons.prems(1) have "nid p \<notin> nid ` set ps" by simp
    then show ?thesis
      using sweep_loop_other[of "nid p" ps now "sweep_one now p s"] sweep_one_same[of p now s] True
      by simp
  next
    case False
    with Cons.prems have mem: "n \<in> set ps" and d: "distinct (map nid ps)" by auto
    from Cons.prems(1) mem have "nid p \<noteq> nid n" by auto
    then show ?thesis
      using Cons.IH[OF d mem, of "sweep_one now p s"] sweep_one_other[of p "nid n" now s]
      by simp
  qed
qed

lemma distinct_pendingNotifications:
  "distinct (map nid rows) \<Longrightarrow> distinct (map nid (pendingNotifications now rows))"
  unfolding pendingNotifications_def
  by (simp add: distinct_map_filter take_map[symmetric] distinct_take)

lemma sweep_loop_queue:
  "queue (sweep_loop now ps s) =
     queue s @
     map (\<lambda>p. \<lparr>jobName = ''send'', notificationId = nid p,
                  jobPriority = getPriorityValue (priority p),
                  attempts = 3, backoffType = ''exponential'', backoffDelay = 1000\<rparr>)
         (filter (\<lambda>p. \<not> expired now p) ps)"
  by (induction ps arbitrary: s) (simp_all add: sweep_one_def Let_def queue_add_send_def)

lemma sweep_loop_rest:
  "userRateLimits (sweep_loop now ps s) = userRateLimits s \<and>
   providerCalls (sweep_loop now ps s) = providerCalls s"
  by (induction ps arbitrary: s) (simp_all add: sweep_one_def Let_def)

lemma map_nid_save:
  "nid p \<in> nid ` set rows \<Longrightarrow> map nid (save p rows) = map nid rows"
proof -
  assume "nid p \<in> nid ` set rows"
  then have ex: "list_ex (\<lambda>n. nid n = nid p) rows" by (auto simp: list_ex_iff)
  have "map nid (map (\<lambda>n. if nid n = nid p then p else n) rows) = map nid rows"
    by (induction rows) simp_all
  with ex show ?thesis by (simp add: save_def)
qed

lemma sweep_one_ids:
  "nid p \<in> nid ` set (table s) \<Longrightarrow> map nid (table (sweep_one now p s)) = map nid (table s)"
  by (simp add: sweep_one_def Let_def map_nid_save)

lemma sweep_loop_ids:
  "\<forall>p\<in>set ps. nid p \<in> nid ` set (table s) \<Longrightarrow>
   map nid (table (sweep_loop now ps s)) = map nid (table s)"
proof (induction ps arbitrary: s)
  case Nil
  then show ?case by simp
next
  case (Cons p ps)
  then have one: "map nid (table (sweep_one now p s)) = map nid (table s)"
    by (simp add: sweep_one_ids)
  then have "nid ` set (table (sweep_one now p s)) = nid ` set (table s)"
    by (metis set_map)
  with Cons.prems have "\<forall>q\<in>set ps. nid q \<in> nid ` set (table (sweep_one now p s))" by simp
  from Cons.IH[OF this] one show ?case by simp
qed

lemma pendingNotifications_subset:
  "set (pendingNotifications now rows) \<subseteq> set rows"
proof
  fix r
  assume "r \<in> set (pendingNotifications now rows)"
  then have "r \<in> set (filter (due now) rows)"
    unfolding pendingNotifications_def by (rule in_set_takeD)
  then show "r \<in> set rows" by simp
qed

text \<open>A table with the id as primary key is determined by its ids and what \<open>findOne\<close>
  returns for each.\<close>

lemma findOne_distinct: "distinct (map nid rows) \<Longrightarrow> r \<in> set rows \<Longrightarrow> findOne (nid r) rows = Some r"
  by (induction rows) (auto simp: findOne_def)

lemma table_eqI:
  "distinct (map nid xs) \<Longrightarrow> map nid ys = map nid xs \<Longrightarrow>
   (\<forall>i. findOne i ys = findOne i xs) \<Longrightarrow> ys = xs"
proof (rule nth_equalityI)
  assume d: "distinct (map nid xs)" and ids: "map nid ys = map nid xs"
    and f: "\<forall>i. findOne i ys = findOne i xs"
  show len: "length ys = length xs" using ids by (metis length_map)
  fix k
  assume k: "k < length ys"
  have dy: "distinct (map nid ys)" using d ids by simp
  have same: "nid (ys ! k) = nid (xs ! k)" using ids k len by (metis nth_map)
  have "ys ! k \<in> set ys" using k by (rule nth_mem)
  then have a: "findOne (nid (ys ! k)) ys = Some (ys ! k)"
    using dy by (rule findOne_distinct[rotated])
  have "xs ! k \<in> set xs" using k len by (simp only: nth_mem)
  then have b: "findOne (nid (xs ! k)) xs = Some (xs ! k)"
    using d by (rule findOne_distinct[rotated])
  from f have "findOne (nid (xs ! k)) ys = findOne (nid (xs ! k)) xs" by (rule spec)
  then have "Some (ys ! k) = Some (xs ! k)"
    unfolding same[symmetric] a unfolding same b .
  then show "ys ! k = xs ! k" by (rule option.inject[THEN iffD1])
qed

lemma findOne_map:
  "\<forall>r. nid (f r) = nid r \<Longrightarrow> findOne i (map f rows) = map_option f (findOne i rows)"
  by (induction rows) (simp_all add: findOne_def)

text \<open>
  C3. The sweep works on the fetched batch and on nothing else: the batch holds at most 100
  rows, each PENDING with \<^verbatim>\<open>scheduledAt <= now\<close>; the queue gains, in batch order, one job for
  each fetched row that is not expired (so at most 100 jobs per tick) and nothing else; the
  ids of the table stay as they are, and a row whose id is not in the batch keeps its stored
  value and its jobs. For every fetched row, with the ids of the table as its primary key: if
  its \<^verbatim>\<open>expiresAt\<close> is set and before \<open>now\<close>, the stored row becomes FAILED with the message
  \<^verbatim>\<open>Notification expired before delivery\<close> and the queue gains no job for it; otherwise the
  stored row becomes QUEUED and the queue gains exactly one job for it, with the priority
  value of the row's priority, 3 attempts and exponential backoff from 1000 ms. The table
  after the sweep is the table before with exactly the fetched rows rewritten.
\<close>

theorem processScheduledNotifications_selected:
  "length (pendingNotifications now (table s)) \<le> 100 \<and>
   queue (processScheduledNotifications now s) =
     queue s @
     map (\<lambda>p. \<lparr>jobName = ''send'', notificationId = nid p,
                  jobPriority =
                    (if priority p = Some ''urgent'' then 1
                     else if priority p = Some ''high'' then 2
                     else if priority p = Some ''normal'' then 3
                     else if priority p = Some ''low'' then 4
                     else 3),
                  attempts = 3, backoffType = ''exponential'', backoffDelay = 1000\<rparr>)
         (filter (\<lambda>p. \<not> expired now p) (pendingNotifications now (table s))) \<and>
   length (queue (processScheduledNotifications now s)) \<le> length (queue s) + 100 \<and>
   map nid (table (processScheduledNotifications now s)) = map nid (table s) \<and>
   userRateLimits (processScheduledNotifications now s) = userRateLimits s \<and>
   providerCalls (processScheduledNotifications now s) = providerCalls s \<and>
   (\<forall>i. i \<notin> nid ` set (pendingNotifications now (table s)) \<longrightarrow>
      findOne i (table (processScheduledNotifications now s)) = findOne i (table s) \<and>
      filter (\<lambda>j. notificationId j = i) (queue (processScheduledNotifications now s)) =
        filter (\<lambda>j. notificationId j = i) (queue s)) \<and>
   (distinct (map nid (table s)) \<longrightarrow>
      table (processScheduledNotifications now s) =
        map (\<lambda>r. if r \<in> set (pendingNotifications now (table s))
                  then (if expired now r
                        then r\<lparr>status := FAILED,
                               errorMessage := Some ''Notification expired before delivery''\<rparr>
                        else r\<lparr>status := QUEUED\<rparr>)
                  else r) (table s)) \<and>
   (distinct (map nid (table s)) \<and> n \<in> set (pendingNotifications now (table s)) \<longrightarrow>
      n \<in> set (table s) \<and> status n = PENDING \<and>
      (\<exists>t. scheduledAt n = Some t \<and> t \<le> now) \<and>
      findOne (nid n) (table (processScheduledNotifications now s)) =
        Some (if expired now n
              then n\<lparr>status := FAILED,
                     errorMessage := Some ''Notification expired before delivery''\<rparr>
              else n\<lparr>status := QUEUED\<rparr>) \<and>
      filter (\<lambda>j. notificationId j = nid n) (queue (processScheduledNotifications now s)) =
        filter (\<lambda>j. notificationId j = nid n) (queue s) @
        (if expired now n then []
         else [\<lparr>jobName = ''send'', notificationId = nid n,
                jobPriority =
                  (if priority n = Some ''urgent'' then 1
                   else if priority n = Some ''high'' then 2
                   else if priority n = Some ''normal'' then 3
                   else if priority n = Some ''low'' then 4
                   else 3),
                attempts = 3, backoffType = ''exponential'', backoffDelay = 1000\<rparr>]))"
proof -
  define ps where "ps = pendingNotifications now (table s)"
  define s' where "s' = processScheduledNotifications now s"
  define swept where "swept = (\<lambda>r. if expired now r
        then r\<lparr>status := FAILED, errorMessage := Some ''Notification expired before delivery''\<rparr>
        else r\<lparr>status := QUEUED\<rparr>)"
  have run: "s' = sweep_loop now ps s"
    by (cases ps) (simp_all add: s'_def ps_def processScheduledNotifications_def Let_def)
  have len: "length ps \<le> 100"
    by (simp add: ps_def pendingNotifications_def)
  have sub: "set ps \<subseteq> set (table s)"
    unfolding ps_def by (rule pendingNotifications_subset)
  have q: "queue s' =
     queue s @
     map (\<lambda>p. \<lparr>jobName = ''send'', notificationId = nid p,
                  jobPriority = getPriorityValue (priority p),
                  attempts = 3, backoffType = ''exponential'', backoffDelay = 1000\<rparr>)
         (filter (\<lambda>p. \<not> expired now p) ps)"
    unfolding run by (rule sweep_loop_queue)
  have "length (filter (\<lambda>p. \<not> expired now p) ps) \<le> 100"
    using length_filter_le len by (rule le_trans)
  then have qlen: "length (queue s') \<le> length (queue s) + 100"
    by (simp add: q)
  have ids: "map nid (table s') = map nid (table s)"
    unfolding run using sub by (intro sweep_loop_ids) auto
  have rest: "userRateLimits s' = userRateLimits s" "providerCalls s' = providerCalls s"
    unfolding run by (simp_all add: sweep_loop_rest)
  have frame: "\<forall>i. i \<notin> nid ` set ps \<longrightarrow>
      findOne i (table s') = findOne i (table s) \<and>
      filter (\<lambda>j. notificationId j = i) (queue s') = filter (\<lambda>j. notificationId j = i) (queue s)"
    unfolding run using sweep_loop_other[of _ ps now s] by blast
  have member: "distinct (map nid (table s)) \<Longrightarrow> m \<in> set ps \<Longrightarrow>
      findOne (nid m) (table s') = Some (swept m) \<and>
      filter (\<lambda>j. notificationId j = nid m) (queue s') =
        filter (\<lambda>j. notificationId j = nid m) (queue s) @
        (if expired now m then []
         else [\<lparr>jobName = ''send'', notificationId = nid m,
                jobPriority = getPriorityValue (priority m),
                attempts = 3, backoffType = ''exponential'', backoffDelay = 1000\<rparr>])" for m
    unfolding run swept_def ps_def
    using sweep_loop_member[OF distinct_pendingNotifications, of "table s" m now now s] by simp
  have whole: "table s' = map (\<lambda>r. if r \<in> set ps then swept r else r) (table s)"
    if d: "distinct (map nid (table s))"
  proof (rule table_eqI)
    let ?f = "\<lambda>r. if r \<in> set ps then swept r else r"
    have keep: "\<forall>r. nid (?f r) = nid r" by (simp add: swept_def)
    show "distinct (map nid (map ?f (table s)))"
      using d keep by (simp add: comp_def)
    show "map nid (table s') = map nid (map ?f (table s))"
      using ids keep by (simp add: comp_def)
    show "\<forall>i. findOne i (table s') = findOne i (map ?f (table s))"
    proof
      fix i
      show "findOne i (table s') = findOne i (map ?f (table s))"
      proof (cases "i \<in> nid ` set ps")
        case True
        then obtain m where m: "m \<in> set ps" "i = nid m" by auto
        then have "findOne i (table s) = Some m"
          using d sub by (auto simp: findOne_distinct)
        then have "findOne i (map ?f (table s)) = Some (swept m)"
          using m keep by (simp add: findOne_map)
        then show ?thesis using member[OF d m(1)] m(2) by simp
      next
        case False
        have "map_option ?f (findOne i (table s)) = findOne i (table s)"
        proof (cases "findOne i (table s)")
          case None
          then show ?thesis by simp
        next
          case (Some r)
          then have "nid r = i" by (rule findOne_nid)
          with False have "r \<notin> set ps" by auto
          with Some show ?thesis by simp
        qed
        then have "findOne i (map ?f (table s)) = findOne i (table s)"
          using keep by (simp add: findOne_map)
        then show ?thesis using frame False by simp
      qed
    qed
  qed
  have row: "n \<in> set (table s) \<and> status n = PENDING \<and> (\<exists>t. scheduledAt n = Some t \<and> t \<le> now)"
    if n: "n \<in> set ps"
  proof -
    from n have "n \<in> set (filter (due now) (table s))"
      unfolding ps_def pendingNotifications_def by (rule in_set_takeD)
    then show ?thesis by (auto simp: due_def split: option.splits)
  qed
  show ?thesis
    unfolding ps_def[symmetric] s'_def[symmetric]
    using len q qlen ids rest frame whole member[of n] row
    unfolding swept_def getPriorityValue_def
    by simp
qed

theorem processScheduledNotifications_selected_witness:
  "findOne ''d1'' (table (processScheduledNotifications 200 sample_state)) =
     Some ((sample ''d1'' ''alice'' EMAIL QUEUED)\<lparr>scheduledAt := Some 100, priority := Some ''urgent''\<rparr>) \<and>
   filter (\<lambda>j. notificationId j = ''d1'') (queue (processScheduledNotifications 200 sample_state)) =
     [\<lparr>jobName = ''send'', notificationId = ''d1'', jobPriority = 1, attempts = 3,
       backoffType = ''exponential'', backoffDelay = 1000\<rparr>] \<and>
   findOne ''d2'' (table (processScheduledNotifications 200 sample_state)) =
     Some ((sample ''d2'' ''alice'' EMAIL FAILED)\<lparr>scheduledAt := Some 100, expiresAt := Some 150,
        errorMessage := Some ''Notification expired before delivery''\<rparr>) \<and>
   filter (\<lambda>j. notificationId j = ''d2'') (queue (processScheduledNotifications 200 sample_state)) = [] \<and>
   queue (processScheduledNotifications 200 sample_state) =
     [\<lparr>jobName = ''send'', notificationId = ''d1'', jobPriority = 1, attempts = 3,
       backoffType = ''exponential'', backoffDelay = 1000\<rparr>] \<and>
   findOne ''n1'' (table (processScheduledNotifications 200 sample_state)) =
     Some (sample ''n1'' ''alice'' IN_APP SENT)"
proof -
  let ?d1 = "(sample ''d1'' ''alice'' EMAIL PENDING)\<lparr>scheduledAt := Some 100, priority := Some ''urgent''\<rparr>"
  let ?d2 = "(sample ''d2'' ''alice'' EMAIL PENDING)\<lparr>scheduledAt := Some 100, expiresAt := Some 150\<rparr>"
  let ?s' = "processScheduledNotifications 200 sample_state"
  have d: "distinct (map nid (table sample_state))"
    by (simp add: sample_state_def sample_table_def sample_def)
  have p: "pendingNotifications 200 (table sample_state) = [?d1, ?d2]"
    by (simp add: pendingNotifications_def sample_state_def sample_table_def sample_def due_def)
  have m1: "distinct (map nid (table sample_state)) \<and>
      ?d1 \<in> set (pendingNotifications 200 (table sample_state))" using d unfolding p by simp
  have m2: "distinct (map nid (table sample_state)) \<and>
      ?d2 \<in> set (pendingNotifications 200 (table sample_state))" using d unfolding p by simp
  have out: "''n1'' \<notin> nid ` set (pendingNotifications 200 (table sample_state))"
    unfolding p by (simp add: sample_def)
  have e1: "\<not> expired 200 ?d1" and e2: "expired 200 ?d2"
    by (simp_all add: expired_def sample_def)
  have q: "queue sample_state = []" by (simp add: sample_state_def)
  have n1: "findOne ''n1'' (table sample_state) = Some (sample ''n1'' ''alice'' IN_APP SENT)"
    by (simp add: findOne_def sample_state_def sample_table_def sample_def)
  note w1 = processScheduledNotifications_selected[of 200 sample_state ?d1]
  note w2 = processScheduledNotifications_selected[of 200 sample_state ?d2]
  from w1 have row1: "findOne (nid ?d1) (table ?s') =
        Some (if expired 200 ?d1
              then ?d1\<lparr>status := FAILED,
                     errorMessage := Some ''Notification expired before delivery''\<rparr>
              else ?d1\<lparr>status := QUEUED\<rparr>)"
    and job1: "filter (\<lambda>j. notificationId j = nid ?d1) (queue ?s') =
        filter (\<lambda>j. notificationId j = nid ?d1) (queue sample_state) @
        (if expired 200 ?d1 then []
         else [\<lparr>jobName = ''send'', notificationId = nid ?d1,
                jobPriority =
                  (if priority ?d1 = Some ''urgent'' then 1
                   else if priority ?d1 = Some ''high'' then 2
                   else if priority ?d1 = Some ''normal'' then 3
                   else if priority ?d1 = Some ''low'' then 4
                   else 3),
                attempts = 3, backoffType = ''exponential'', backoffDelay = 1000\<rparr>])"
    using m1 by blast+
  from w2 have row2: "findOne (nid ?d2) (table ?s') =
        Some (if expired 200 ?d2
              then ?d2\<lparr>status := FAILED,
                     errorMessage := Some ''Notification expired before delivery''\<rparr>
              else ?d2\<lparr>status := QUEUED\<rparr>)"
    and job2: "filter (\<lambda>j. notificationId j = nid ?d2) (queue ?s') =
        filter (\<lambda>j. notificationId j = nid ?d2) (queue sample_state) @
        (if expired 200 ?d2 then []
         else [\<lparr>jobName = ''send'', notificationId = nid ?d2,
                jobPriority =
                  (if priority ?d2 = Some ''urgent'' then 1
                   else if priority ?d2 = Some ''high'' then 2
                   else if priority ?d2 = Some ''normal'' then 3
                   else if priority ?d2 = Some ''low'' then 4
                   else 3),
                attempts = 3, backoffType = ''exponential'', backoffDelay = 1000\<rparr>])"
    using m2 by blast+
  from w1 have whole: "queue ?s' =
     queue sample_state @
     map (\<lambda>p. \<lparr>jobName = ''send'', notificationId = nid p,
                  jobPriority =
                    (if priority p = Some ''urgent'' then 1
                     else if priority p = Some ''high'' then 2
                     else if priority p = Some ''normal'' then 3
                     else if priority p = Some ''low'' then 4
                     else 3),
                  attempts = 3, backoffType = ''exponential'', backoffDelay = 1000\<rparr>)
         (filter (\<lambda>p. \<not> expired 200 p) (pendingNotifications 200 (table sample_state)))"
    by blast
  from w1 out have frame: "findOne ''n1'' (table ?s') = findOne ''n1'' (table sample_state)"
    by blast
  have a: "findOne ''d1'' (table ?s') =
     Some ((sample ''d1'' ''alice'' EMAIL QUEUED)\<lparr>scheduledAt := Some 100, priority := Some ''urgent''\<rparr>)"
    using row1 e1 by (simp add: sample_def)
  have b: "filter (\<lambda>j. notificationId j = ''d1'') (queue ?s') =
     [\<lparr>jobName = ''send'', notificationId = ''d1'', jobPriority = 1, attempts = 3,
       backoffType = ''exponential'', backoffDelay = 1000\<rparr>]"
    using job1 e1 q by (simp add: sample_def)
  have c: "findOne ''d2'' (table ?s') =
     Some ((sample ''d2'' ''alice'' EMAIL FAILED)\<lparr>scheduledAt := Some 100, expiresAt := Some 150,
        errorMessage := Some ''Notification expired before delivery''\<rparr>)"
    using row2 e2 by (simp add: sample_def)
  have e: "filter (\<lambda>j. notificationId j = ''d2'') (queue ?s') = []"
    using job2 e2 q by (simp add: sample_def)
  have f: "queue ?s' =
     [\<lparr>jobName = ''send'', notificationId = ''d1'', jobPriority = 1, attempts = 3,
       backoffType = ''exponential'', backoffDelay = 1000\<rparr>]"
    using whole e1 e2 q unfolding p by (simp add: sample_def)
  have g: "findOne ''n1'' (table ?s') = Some (sample ''n1'' ''alice'' IN_APP SENT)"
    using frame n1 by simp
  from a b c e f g show ?thesis by blast
qed

subsection \<open>Processing a push notification\<close>

lemma set_newest_first: "set (newest_first rows) = set rows"
  by (simp add: newest_first_def)

lemma getFailedNotifications_member:
  "r \<in> set (getFailedNotifications limit rows) \<Longrightarrow> r \<in> set rows \<and> status r = FAILED"
proof -
  assume "r \<in> set (getFailedNotifications limit rows)"
  then have "r \<in> set (newest_first (filter (\<lambda>n. status n = FAILED) rows))"
    unfolding getFailedNotifications_def by (rule in_set_takeD)
  then show ?thesis by (simp add: set_newest_first)
qed

lemma collect_errors_first:
  "\<forall>r\<in>set oks. resp_success r \<Longrightarrow> \<not> resp_success bad \<Longrightarrow>
   collect_errors tokens idx (oks @ bad # rest) =
     (token_at tokens (idx + length oks), response_error bad) #
     collect_errors tokens (Suc (idx + length oks)) rest"
  by (induction oks arbitrary: idx) simp_all

lemma response_error_nonempty: "response_error resp \<noteq> []"
  by (simp add: response_error_def truthy_def split: option.splits)

lemma process_push_sent:
  assumes "findOne i (table s) = Some n" and "ntype n = PUSH" and "\<not> expired now n"
    and "getUserDevices e (userId n) = Inr tokens" and "tokens \<noteq> []"
  shows "processNotification e now i s =
     (Inr (),
      s\<lparr>table :=
          save ((let result = sendToDevices e tokens (pushPayload n)
                 in if success result then n\<lparr>status := SENT\<rparr>
                    else if successCount result > 0
                    then n\<lparr>status := SENT,
                           errorMessage := Some (''Partial delivery: '' @
                             string_of_nat (failureCount result) @ '' failed'')\<rparr>
                    else n\<lparr>status := FAILED,
                           errorMessage := Some
                             (case errors result of
                                [] \<Rightarrow> ''All devices failed''
                              | err # _ \<Rightarrow>
                                  if snd err \<noteq> [] then snd err else ''All devices failed'')\<rparr>)
                \<lparr>sentAt := Some now\<rparr>) (table s),
        providerCalls := providerCalls s @ [PushCall tokens (pushPayload n)]\<rparr>)"
  using assms
  by (simp add: processNotification_def dispatch_def sendPushNotification_def Let_def)

lemma sendToDevices_success:
  "tokens \<noteq> [] \<Longrightarrow> 0 < failureCount (sendToDevices e tokens payload) \<Longrightarrow>
   \<not> success (sendToDevices e tokens payload)"
  by (auto simp: sendToDevices_def Let_def split: sum.splits if_splits)

text \<open>
  C4. A push notification that reaches the multicast send (the row exists, is not expired,
  and the directory returns at least one token): when the provider reports at least one
  success and at least one failure, the stored row is SENT with the non-empty message
  \<^verbatim>\<open>Partial delivery: <failureCount> failed\<close>, and no result of
  \<^verbatim>\<open>getFailedNotifications\<close> contains a row with its id; when the provider reports no success
  and at least one failure, the stored row is FAILED with the first error of the provider
  result (\<^verbatim>\<open>All devices failed\<close> when that is missing or empty), which for a multicast
  response is the error of the first failed destination.
\<close>

theorem processNotification_multicast:
  assumes "findOne i (table s) = Some n" and "ntype n = PUSH" and "\<not> expired now n"
    and "getUserDevices e (userId n) = Inr tokens" and "tokens \<noteq> []"
    and "result = sendToDevices e tokens (pushPayload n)"
    and "s' = snd (processNotification e now i s)"
  shows "(0 < successCount result \<and> 0 < failureCount result \<longrightarrow>
           fst (processNotification e now i s) = Inr () \<and>
           findOne i (table s') =
             Some (n\<lparr>status := SENT,
                     errorMessage := Some (''Partial delivery: '' @
                       string_of_nat (failureCount result) @ '' failed''),
                     sentAt := Some now\<rparr>) \<and>
           ''Partial delivery: '' @ string_of_nat (failureCount result) @ '' failed'' \<noteq> [] \<and>
           (\<forall>limit. \<forall>r\<in>set (getFailedNotifications limit (table s')). nid r \<noteq> i)) \<and>
         (successCount result = 0 \<and> 0 < failureCount result \<longrightarrow>
           findOne i (table s') =
             Some (n\<lparr>status := FAILED,
                     errorMessage := Some
                       (case errors result of
                          [] \<Rightarrow> ''All devices failed''
                        | err # _ \<Rightarrow> if snd err \<noteq> [] then snd err else ''All devices failed''),
                     sentAt := Some now\<rparr>) \<and>
           (\<forall>response oks bad rest.
              initialized e \<and> sendEachForMulticast e tokens (pushPayload n) = Inr response \<and>
              responses response = oks @ bad # rest \<and> (\<forall>r\<in>set oks. resp_success r) \<and>
              \<not> resp_success bad \<longrightarrow>
              errors result \<noteq> [] \<and> snd (hd (errors result)) = response_error bad \<and>
              errorMessage (the (findOne i (table s'))) = Some (response_error bad)))"
proof (intro conjI impI)
  have id: "nid n = i" using assms(1) by (rule findOne_nid)
  note run = process_push_sent[OF assms(1-5), folded assms(6)]
  {
    assume part: "0 < successCount result \<and> 0 < failureCount result"
    then have ns: "\<not> success result"
      using sendToDevices_success[OF assms(5), of e "pushPayload n"] assms(6) by simp
    define n' where "n' = n\<lparr>status := SENT,
                     errorMessage := Some (''Partial delivery: '' @
                       string_of_nat (failureCount result) @ '' failed''),
                     sentAt := Some now\<rparr>"
    have tab: "table s' = save n' (table s)"
      using part ns by (simp add: assms(7) run Let_def n'_def)
    have id': "nid n' = i" by (simp add: n'_def id)
    show "fst (processNotification e now i s) = Inr ()" by (simp add: run)
    show "findOne i (table s') =
             Some (n\<lparr>status := SENT,
                     errorMessage := Some (''Partial delivery: '' @
                       string_of_nat (failureCount result) @ '' failed''),
                     sentAt := Some now\<rparr>)"
      unfolding n'_def[symmetric] using findOne_save_same[of n' "table s"] by (simp add: tab id')
    show "''Partial delivery: '' @ string_of_nat (failureCount result) @ '' failed'' \<noteq> []"
      by simp
    show "\<forall>limit. \<forall>r\<in>set (getFailedNotifications limit (table s')). nid r \<noteq> i"
    proof (intro allI ballI notI)
      fix limit r
      assume r: "r \<in> set (getFailedNotifications limit (table s'))" and "nid r = i"
      from r have "r \<in> set (save n' (table s))" and f: "status r = FAILED"
        using getFailedNotifications_member[of r limit "table s'"] by (simp_all add: tab)
      with \<open>nid r = i\<close> have "r = n'" using save_rows_with_id[of r n' "table s"] id' by simp
      with f show False by (simp add: n'_def)
    qed
  }
  {
    assume all: "successCount result = 0 \<and> 0 < failureCount result"
    then have ns: "\<not> success result"
      using sendToDevices_success[OF assms(5), of e "pushPayload n"] assms(6) by simp
    define n' where "n' = n\<lparr>status := FAILED,
                     errorMessage := Some
                       (case errors result of
                          [] \<Rightarrow> ''All devices failed''
                        | err # _ \<Rightarrow> if snd err \<noteq> [] then snd err else ''All devices failed''),
                     sentAt := Some now\<rparr>"
    have tab: "table s' = save n' (table s)"
      using all ns by (simp add: assms(7) run Let_def n'_def)
    have id': "nid n' = i" by (simp add: n'_def id)
    show found: "findOne i (table s') =
             Some (n\<lparr>status := FAILED,
                     errorMessage := Some
                       (case errors result of
                          [] \<Rightarrow> ''All devices failed''
                        | err # _ \<Rightarrow> if snd err \<noteq> [] then snd err else ''All devices failed''),
                     sentAt := Some now\<rparr>)"
      unfolding n'_def[symmetric] using findOne_save_same[of n' "table s"] by (simp add: tab id')
    show "\<forall>response oks bad rest.
              initialized e \<and> sendEachForMulticast e tokens (pushPayload n) = Inr response \<and>
              responses response = oks @ bad # rest \<and> (\<forall>r\<in>set oks. resp_success r) \<and>
              \<not> resp_success bad \<longrightarrow>
              errors result \<noteq> [] \<and> snd (hd (errors result)) = response_error bad \<and>
              errorMessage (the (findOne i (table s'))) = Some (response_error bad)"
    proof (intro allI impI)
      fix response oks bad rest
      assume h: "initialized e \<and> sendEachForMulticast e tokens (pushPayload n) = Inr response \<and>
              responses response = oks @ bad # rest \<and> (\<forall>r\<in>set oks. resp_success r) \<and>
              \<not> resp_success bad"
      then have "errors result = collect_errors tokens 0 (oks @ bad # rest)"
        using assms(5) by (simp add: assms(6) sendToDevices_def Let_def)
      also have "\<dots> = (token_at tokens (0 + length oks), response_error bad) #
            collect_errors tokens (Suc (0 + length oks)) rest"
        using h by (intro collect_errors_first) simp_all
      finally have errs: "errors result = (token_at tokens (0 + length oks), response_error bad) #
            collect_errors tokens (Suc (0 + length oks)) rest" .
      show "errors result \<noteq> [] \<and> snd (hd (errors result)) = response_error bad \<and>
              errorMessage (the (findOne i (table s'))) = Some (response_error bad)"
        using errs found response_error_nonempty[of bad] by simp
    qed
  }
qed

theorem processNotification_multicast_witness:
  "findOne ''p1'' (table (snd (processNotification sample_env 1000 ''p1'' sample_state))) =
     Some ((sample ''p1'' ''alice'' PUSH SENT)\<lparr>errorMessage := Some ''Partial delivery: 1 failed'',
              sentAt := Some 1000\<rparr>) \<and>
   ''p1'' \<notin> nid ` set (getFailedNotifications 50
               (table (snd (processNotification sample_env 1000 ''p1'' sample_state)))) \<and>
   findOne ''p1'' (table (snd (processNotification failing_env 1000 ''p1'' sample_state))) =
     Some ((sample ''p1'' ''alice'' PUSH FAILED)\<lparr>errorMessage := Some ''Unregistered'',
              sentAt := Some 1000\<rparr>)"
proof -
  let ?n = "sample ''p1'' ''alice'' PUSH QUEUED"
  let ?tokens = "[''t1'', ''t2'', ''t3'']"
  have f: "findOne ''p1'' (table sample_state) = Some ?n"
    by (simp add: findOne_def sample_state_def sample_table_def sample_def)
  have t: "ntype ?n = PUSH" and x: "\<not> expired 1000 ?n"
    by (simp_all add: sample_def expired_def)
  have g1: "getUserDevices sample_env (userId ?n) = Inr ?tokens"
    by (simp add: sample_env_def sample_def)
  have g2: "getUserDevices failing_env (userId ?n) = Inr ?tokens"
    by (simp add: failing_env_def sample_env_def sample_def)
  have ne: "?tokens \<noteq> []" by simp
  have r1: "successCount (sendToDevices sample_env ?tokens (pushPayload ?n)) = 2"
    "failureCount (sendToDevices sample_env ?tokens (pushPayload ?n)) = 1"
    by (simp_all add: sendToDevices_def sample_env_def Let_def)
  have r2: "successCount (sendToDevices failing_env ?tokens (pushPayload ?n)) = 0"
    "failureCount (sendToDevices failing_env ?tokens (pushPayload ?n)) = 3"
    "errors (sendToDevices failing_env ?tokens (pushPayload ?n)) =
       [(Some ''t1'', ''Unregistered''), (Some ''t2'', ''Unknown error''), (Some ''t3'', ''Quota'')]"
    by (simp_all add: sendToDevices_def failing_env_def sample_env_def Let_def token_at_def
        response_error_def truthy_def)
  have one: "string_of_nat (Suc 0) = ''1''"
    by (subst string_of_nat.simps) (simp add: digit_char_def)
  note a = processNotification_multicast[OF f t x g1 ne refl refl, THEN conjunct1, rule_format]
  note b = processNotification_multicast[OF f t x g2 ne refl refl, THEN conjunct2, rule_format]
  have a': "findOne ''p1'' (table (snd (processNotification sample_env 1000 ''p1'' sample_state))) =
       Some (?n\<lparr>status := SENT, errorMessage := Some (''Partial delivery: '' @ string_of_nat 1 @ '' failed''),
               sentAt := Some 1000\<rparr>)"
    "\<forall>limit. \<forall>r\<in>set (getFailedNotifications limit
               (table (snd (processNotification sample_env 1000 ''p1'' sample_state)))).
      nid r \<noteq> ''p1''"
    using a r1 by simp_all
  have b': "findOne ''p1'' (table (snd (processNotification failing_env 1000 ''p1'' sample_state))) =
       Some (?n\<lparr>status := FAILED, errorMessage := Some ''Unregistered'', sentAt := Some 1000\<rparr>)"
    using b r2 by simp
  have c': "''p1'' \<notin> nid ` set (getFailedNotifications 50
               (table (snd (processNotification sample_env 1000 ''p1'' sample_state))))"
  proof
    assume "''p1'' \<in> nid ` set (getFailedNotifications 50
               (table (snd (processNotification sample_env 1000 ''p1'' sample_state))))"
    then obtain r where "r \<in> set (getFailedNotifications 50
               (table (snd (processNotification sample_env 1000 ''p1'' sample_state))))"
      and "nid r = ''p1''"
      by (elim imageE) (rule that, assumption, rule sym, assumption)
    with a'(2) show False by (elim allE[of _ 50] ballE) (erule notE, assumption, erule notE, assumption)
  qed
  have "findOne ''p1'' (table (snd (processNotification sample_env 1000 ''p1'' sample_state))) =
     Some ((sample ''p1'' ''alice'' PUSH SENT)\<lparr>errorMessage := Some ''Partial delivery: 1 failed'',
              sentAt := Some 1000\<rparr>)"
    using a'(1) by (simp add: one sample_def)
  moreover have "findOne ''p1'' (table (snd (processNotification failing_env 1000 ''p1'' sample_state))) =
     Some ((sample ''p1'' ''alice'' PUSH FAILED)\<lparr>errorMessage := Some ''Unregistered'',
              sentAt := Some 1000\<rparr>)"
    using b' by (simp add: sample_def)
  ultimately show ?thesis using c' by blast
qed

text \<open>
  C6. A push notification that reaches the device lookup (the row exists and is not
  expired) and whose user has no registered token: processing returns normally, the stored
  row is FAILED with the message \<^verbatim>\<open>No registered devices\<close> and \<^verbatim>\<open>sentAt\<close> set to the processing
  time, and no provider call is made.
\<close>

theorem processNotification_no_devices:
  assumes "findOne i (table s) = Some n" and "ntype n = PUSH" and "\<not> expired now n"
    and "getUserDevices e (userId n) = Inr []"
  shows "fst (processNotification e now i s) = Inr () \<and>
         table (snd (processNotification e now i s)) =
           save (n\<lparr>status := FAILED, errorMessage := Some ''No registered devices'',
                   sentAt := Some now\<rparr>) (table s) \<and>
         findOne i (table (snd (processNotification e now i s))) =
           Some (n\<lparr>status := FAILED, errorMessage := Some ''No registered devices'',
                   sentAt := Some now\<rparr>) \<and>
         providerCalls (snd (processNotification e now i s)) = providerCalls s \<and>
         queue (snd (processNotification e now i s)) = queue s"
proof -
  define n' where "n' = n\<lparr>status := FAILED, errorMessage := Some ''No registered devices'',
                   sentAt := Some now\<rparr>"
  have id': "nid n' = i" using findOne_nid[OF assms(1)] by (simp add: n'_def)
  have run: "processNotification e now i s =
      (Inr (), s\<lparr>table := save n' (table s), providerCalls := providerCalls s @ []\<rparr>)"
    using assms
    by (simp add: processNotification_def dispatch_def sendPushNotification_def n'_def)
  have "findOne i (save n' (table s)) = Some n'"
    using findOne_save_same[of n' "table s"] by (simp add: id')
  then show ?thesis by (simp add: run n'_def[symmetric])
qed

theorem processNotification_no_devices_witness:
  "fst (processNotification sample_env 1000 ''p2'' sample_state) = Inr () \<and>
   findOne ''p2'' (table (snd (processNotification sample_env 1000 ''p2'' sample_state))) =
     Some ((sample ''p2'' ''bob'' PUSH QUEUED)\<lparr>status := FAILED,
              errorMessage := Some ''No registered devices'', sentAt := Some 1000\<rparr>) \<and>
   providerCalls (snd (processNotification sample_env 1000 ''p2'' sample_state)) = []"
proof -
  let ?n = "sample ''p2'' ''bob'' PUSH QUEUED"
  have f: "findOne ''p2'' (table sample_state) = Some ?n"
    by (simp add: findOne_def sample_state_def sample_table_def sample_def)
  have t: "ntype ?n = PUSH" and x: "\<not> expired 1000 ?n"
    by (simp_all add: sample_def expired_def)
  have g: "getUserDevices sample_env (userId ?n) = Inr []"
    by (simp add: sample_env_def sample_def)
  have c: "providerCalls sample_state = []" by (simp add: sample_state_def)
  note w = processNotification_no_devices[OF f t x g]
  from w have a: "fst (processNotification sample_env 1000 ''p2'' sample_state) = Inr ()"
    by (rule conjunct1)
  from w have b: "findOne ''p2'' (table (snd (processNotification sample_env 1000 ''p2'' sample_state))) =
     Some (?n\<lparr>status := FAILED, errorMessage := Some ''No registered devices'',
              sentAt := Some 1000\<rparr>)"
    by blast
  from w c have d: "providerCalls (snd (processNotification sample_env 1000 ''p2'' sample_state)) = []"
    by metis
  from a b d show ?thesis by blast
qed

subsection \<open>Manual retry\<close>

text \<open>
  C5. \<^verbatim>\<open>retryNotification\<close> returns false and leaves the whole state as it is when no row has
  the id or the row's status is not FAILED. For a FAILED row it returns true, stores the row
  with status QUEUED and \<^verbatim>\<open>errorMessage\<close> cleared, and appends exactly one job for the id to
  the queue.
\<close>

theorem retryNotification_cases:
  "(findOne i (table s) = None \<or> (\<exists>n. findOne i (table s) = Some n \<and> status n \<noteq> FAILED) \<longrightarrow>
      retryNotification i s = (False, s)) \<and>
   (\<forall>n. findOne i (table s) = Some n \<and> status n = FAILED \<longrightarrow>
      fst (retryNotification i s) = True \<and>
      table (snd (retryNotification i s)) =
        save (n\<lparr>status := QUEUED, errorMessage := None\<rparr>) (table s) \<and>
      findOne i (table (snd (retryNotification i s))) =
        Some (n\<lparr>status := QUEUED, errorMessage := None\<rparr>) \<and>
      queue (snd (retryNotification i s)) =
        queue s @
          [\<lparr>jobName = ''send'', notificationId = i,
            jobPriority = getPriorityValue (priority n),
            attempts = 3, backoffType = ''exponential'', backoffDelay = 1000\<rparr>] \<and>
      userRateLimits (snd (retryNotification i s)) = userRateLimits s \<and>
      providerCalls (snd (retryNotification i s)) = providerCalls s)"
proof (intro conjI allI impI)
  assume "findOne i (table s) = None \<or> (\<exists>n. findOne i (table s) = Some n \<and> status n \<noteq> FAILED)"
  then show "retryNotification i s = (False, s)"
    by (auto simp: retryNotification_def)
next
  fix n
  assume h: "findOne i (table s) = Some n \<and> status n = FAILED"
  define n' where "n' = n\<lparr>status := QUEUED, errorMessage := None\<rparr>"
  have id': "nid n' = i" using h findOne_nid[of i "table s" n] by (simp add: n'_def)
  have run: "retryNotification i s =
      (True, s\<lparr>table := save n' (table s),
               queue := queue_add_send i (priority n) (queue s)\<rparr>)"
    using h by (simp add: retryNotification_def Let_def n'_def)
  have found: "findOne i (save n' (table s)) = Some n'"
    using findOne_save_same[of n' "table s"] by (simp add: id')
  show "fst (retryNotification i s) = True" by (simp add: run)
  show "table (snd (retryNotification i s)) =
        save (n\<lparr>status := QUEUED, errorMessage := None\<rparr>) (table s)"
    by (simp add: run n'_def)
  show "findOne i (table (snd (retryNotification i s))) =
        Some (n\<lparr>status := QUEUED, errorMessage := None\<rparr>)"
    unfolding n'_def[symmetric] using found by (simp add: run)
  show "queue (snd (retryNotification i s)) =
        queue s @
          [\<lparr>jobName = ''send'', notificationId = i,
            jobPriority = getPriorityValue (priority n),
            attempts = 3, backoffType = ''exponential'', backoffDelay = 1000\<rparr>]"
    by (simp add: run queue_add_send_def)
  show "userRateLimits (snd (retryNotification i s)) = userRateLimits s" by (simp add: run)
  show "providerCalls (snd (retryNotification i s)) = providerCalls s" by (simp add: run)
qed

theorem retryNotification_cases_witness:
  "retryNotification ''zz'' sample_state = (False, sample_state) \<and>
   retryNotification ''n1'' sample_state = (False, sample_state) \<and>
   fst (retryNotification ''f1'' sample_state) = True \<and>
   findOne ''f1'' (table (snd (retryNotification ''f1'' sample_state))) =
     Some ((sample ''f1'' ''bob'' SMS FAILED)\<lparr>errorMessage := Some ''No phone number provided'',
              status := QUEUED, errorMessage := None\<rparr>) \<and>
   queue (snd (retryNotification ''f1'' sample_state)) =
     [\<lparr>jobName = ''send'', notificationId = ''f1'', jobPriority = 3, attempts = 3,
       backoffType = ''exponential'', backoffDelay = 1000\<rparr>]"
proof -
  let ?f = "(sample ''f1'' ''bob'' SMS FAILED)\<lparr>errorMessage := Some ''No phone number provided''\<rparr>"
  have z: "findOne ''zz'' (table sample_state) = None \<or>
      (\<exists>n. findOne ''zz'' (table sample_state) = Some n \<and> status n \<noteq> FAILED)"
    by (simp add: findOne_def sample_state_def sample_table_def sample_def)
  have n: "findOne ''n1'' (table sample_state) = None \<or>
      (\<exists>n. findOne ''n1'' (table sample_state) = Some n \<and> status n \<noteq> FAILED)"
    by (simp add: findOne_def sample_state_def sample_table_def sample_def)
  have f: "findOne ''f1'' (table sample_state) = Some ?f \<and> status ?f = FAILED"
    by (simp add: findOne_def sample_state_def sample_table_def sample_def)
  have q: "queue sample_state = []" by (simp add: sample_state_def)
  have p: "getPriorityValue (priority ?f) = 3" by (simp add: getPriorityValue_def sample_def)
  note a = retryNotification_cases[of "''zz''" sample_state, THEN conjunct1, rule_format, OF z]
  note b = retryNotification_cases[of "''n1''" sample_state, THEN conjunct1, rule_format, OF n]
  note c = retryNotification_cases[of "''f1''" sample_state, THEN conjunct2, rule_format, OF f]
  from c have c1: "fst (retryNotification ''f1'' sample_state) = True" by (rule conjunct1)
  from c have c2: "findOne ''f1'' (table (snd (retryNotification ''f1'' sample_state))) =
      Some (?f\<lparr>status := QUEUED, errorMessage := None\<rparr>)" by blast
  from c have "queue (snd (retryNotification ''f1'' sample_state)) =
      queue sample_state @
          [\<lparr>jobName = ''send'', notificationId = ''f1'',
            jobPriority = getPriorityValue (priority ?f),
            attempts = 3, backoffType = ''exponential'', backoffDelay = 1000\<rparr>]" by blast
  then have c3: "queue (snd (retryNotification ''f1'' sample_state)) =
     [\<lparr>jobName = ''send'', notificationId = ''f1'', jobPriority = 3, attempts = 3,
       backoffType = ''exponential'', backoffDelay = 1000\<rparr>]"
    unfolding q p by simp
  from a b c1 c2 c3 show ?thesis by blast
qed

subsection \<open>Marking as read\<close>

text \<open>What a second \<^verbatim>\<open>markAsRead\<close> does to a row the first one matched: it writes the row
  again, with the instant of the second call.\<close>

lemma markAsRead_again:
  "nid n \<in> set ids \<Longrightarrow> userId n = u \<Longrightarrow>
   markAsRead t2 u ids (markAsRead t1 u ids [n]) = [n\<lparr>status := READ, readAt := Some t2\<rparr>]"
  by (simp add: markAsRead_def)

text \<open>
  C8. A second \<^verbatim>\<open>markAsRead\<close> with the same ids is not a no-op on this table: the update
  has no condition on the status, so the row that the first call (at 1000) set to READ is
  written again by the second call (at 2000) and its \<^verbatim>\<open>readAt\<close> moves from 1000 to 2000.
\<close>

theorem markAsRead_twice_moves_readAt:
  "map readAt (markAsRead 1000 ''alice'' [''n1''] sample_table) ! 0 = Some 1000 \<and>
   map status (markAsRead 1000 ''alice'' [''n1''] sample_table) ! 0 = READ \<and>
   map readAt (markAsRead 2000 ''alice'' [''n1'']
                 (markAsRead 1000 ''alice'' [''n1''] sample_table)) ! 0 = Some 2000 \<and>
   markAsRead 2000 ''alice'' [''n1''] (markAsRead 1000 ''alice'' [''n1''] sample_table) \<noteq>
     markAsRead 1000 ''alice'' [''n1''] sample_table"
  by (simp add: markAsRead_def sample_table_def sample_def)

text \<open>The sibling \<^verbatim>\<open>markAllAsRead\<close> carries the condition \<^verbatim>\<open>status != READ\<close>: repeated, it
  changes nothing.\<close>

lemma markAllAsRead_again:
  "markAllAsRead t2 u ws (markAllAsRead t1 u ws rows) = markAllAsRead t1 u ws rows"
  by (auto simp: markAllAsRead_def in_workspace_def)

text \<open>
  C9. \<^verbatim>\<open>markAllAsRead\<close> with a workspace id keeps the table's length and order, sets status
  READ and \<^verbatim>\<open>readAt = now\<close> on exactly the rows of that user in that workspace that are not
  READ, and leaves every other row (another workspace, another user, already READ) as it is.
\<close>

theorem markAllAsRead_workspace:
  assumes "ws \<noteq> []"
  shows "length (markAllAsRead now u (Some ws) rows) = length rows \<and>
         (\<forall>k<length rows.
            markAllAsRead now u (Some ws) rows ! k =
              (if userId (rows ! k) = u \<and> workspaceId (rows ! k) = Some ws \<and>
                  status (rows ! k) \<noteq> READ
               then (rows ! k)\<lparr>status := READ, readAt := Some now\<rparr>
               else rows ! k))"
  using assms by (auto simp: markAllAsRead_def in_workspace_def truthy_def)

theorem markAllAsRead_workspace_witness:
  "markAllAsRead 1000 ''alice'' (Some ''w1'') sample_table ! 0 =
     (sample ''n1'' ''alice'' IN_APP READ)\<lparr>readAt := Some 1000\<rparr> \<and>
   markAllAsRead 1000 ''alice'' (Some ''w1'') sample_table ! 1 = sample_table ! 1 \<and>
   markAllAsRead 1000 ''alice'' (Some ''w1'') sample_table ! 3 = sample_table ! 3"
proof -
  have ws: "''w1'' \<noteq> []" by simp
  have len: "0 < length sample_table" "1 < length sample_table" "3 < length sample_table"
    by (simp_all add: sample_table_def)
  note w = markAllAsRead_workspace[OF ws, of 1000 "''alice''" sample_table, THEN conjunct2, rule_format]
  have r0: "sample_table ! 0 = sample ''n1'' ''alice'' IN_APP SENT"
    and r1: "sample_table ! 1 = (sample ''n2'' ''alice'' IN_APP SENT)\<lparr>workspaceId := Some ''w2''\<rparr>"
    and r3: "sample_table ! 3 = sample ''p2'' ''bob'' PUSH QUEUED"
    by (simp_all add: sample_table_def)
  show ?thesis
    using w[OF len(1)] w[OF len(2)] w[OF len(3)] unfolding r0 r1 r3 by (simp add: sample_def)
qed

subsection \<open>In-app queries\<close>

lemma filter_in_app:
  "filter (\<lambda>n. P n \<and> ntype n = IN_APP \<and> Q n) (filter (\<lambda>n. ntype n = IN_APP) rows) =
   filter (\<lambda>n. P n \<and> ntype n = IN_APP \<and> Q n) rows"
  by (induction rows) simp_all

lemma ntype_toResponse: "ntype (toResponse n) = ntype n"
  by (simp add: toResponse_def)

text \<open>
  C10. Every notification that \<^verbatim>\<open>getUserNotifications\<close> returns is in-app, and neither its
  result (data and total) nor the result of \<^verbatim>\<open>getUnreadCount\<close> changes when all push, email
  and sms rows are removed from the table, whatever their status.
\<close>

theorem in_app_only:
  "(\<forall>r\<in>set (fst (getUserNotifications u ws page limit rows)). ntype r = IN_APP) \<and>
   getUserNotifications u ws page limit rows =
     getUserNotifications u ws page limit (filter (\<lambda>n. ntype n = IN_APP) rows) \<and>
   getUnreadCount u ws rows = getUnreadCount u ws (filter (\<lambda>n. ntype n = IN_APP) rows)"
proof (intro conjI ballI)
  fix r
  assume "r \<in> set (fst (getUserNotifications u ws page limit rows))"
  then obtain n where n: "r = toResponse n"
    and "n \<in> set (take limit (drop (page * limit)
           (newest_first (filter (\<lambda>n. userId n = u \<and> ntype n = IN_APP \<and> in_workspace ws n) rows))))"
    by (auto simp: getUserNotifications_def Let_def)
  then have "n \<in> set (newest_first (filter (\<lambda>n. userId n = u \<and> ntype n = IN_APP \<and> in_workspace ws n) rows))"
    by (blast dest: in_set_takeD in_set_dropD)
  then have "ntype n = IN_APP" by (simp add: set_newest_first)
  with n show "ntype r = IN_APP" by (simp add: ntype_toResponse)
next
  show "getUserNotifications u ws page limit rows =
     getUserNotifications u ws page limit (filter (\<lambda>n. ntype n = IN_APP) rows)"
    unfolding getUserNotifications_def filter_in_app by (rule refl)
next
  have "filter (\<lambda>n. userId n = u \<and> ntype n = IN_APP \<and> (status n \<noteq> READ \<and> in_workspace ws n))
          (filter (\<lambda>n. ntype n = IN_APP) rows) =
        filter (\<lambda>n. userId n = u \<and> ntype n = IN_APP \<and> (status n \<noteq> READ \<and> in_workspace ws n)) rows"
    by (rule filter_in_app)
  then show "getUnreadCount u ws rows = getUnreadCount u ws (filter (\<lambda>n. ntype n = IN_APP) rows)"
    by (simp add: getUnreadCount_def)
qed

theorem in_app_only_witness:
  "toResponse (sample ''n1'' ''alice'' IN_APP SENT) \<in>
     set (fst (getUserNotifications ''alice'' (Some ''w1'') 0 20 sample_table)) \<and>
   ntype (toResponse (sample ''n1'' ''alice'' IN_APP SENT)) = IN_APP \<and>
   getUserNotifications ''alice'' (Some ''w1'') 0 20 sample_table =
     ([toResponse (sample ''n1'' ''alice'' IN_APP SENT)], 1) \<and>
   getUnreadCount ''alice'' None sample_table = 2"
proof -
  have flt: "filter (\<lambda>n. ntype n = IN_APP) sample_table =
      [sample ''n1'' ''alice'' IN_APP SENT,
       (sample ''n2'' ''alice'' IN_APP SENT)\<lparr>workspaceId := Some ''w2''\<rparr>]"
    by (simp add: sample_table_def sample_def)
  note w = in_app_only[of "''alice''" "Some ''w1''" 0 20 sample_table]
  note u = in_app_only[of "''alice''" None 0 20 sample_table]
  have g: "getUserNotifications ''alice'' (Some ''w1'') 0 20 sample_table =
     ([toResponse (sample ''n1'' ''alice'' IN_APP SENT)], 1)"
    using w[THEN conjunct2, THEN conjunct1] unfolding flt
    by (simp add: getUserNotifications_def in_workspace_def truthy_def newest_first_def sample_def)
  have c: "getUnreadCount ''alice'' None sample_table = 2"
    using u[THEN conjunct2, THEN conjunct2] unfolding flt
    by (simp add: getUnreadCount_def in_workspace_def truthy_def sample_def)
  have m: "toResponse (sample ''n1'' ''alice'' IN_APP SENT) \<in>
     set (fst (getUserNotifications ''alice'' (Some ''w1'') 0 20 sample_table))"
    by (simp add: g)
  from w[THEN conjunct1, rule_format, OF m] g c m show ?thesis by simp
qed

end
